theory Spec2Isabelle
  imports Complex_Main "HOL-Library.Sublist"
begin

section \<open>Values, strings and record sets\<close>

text \<open>
  The program is \<^verbatim>\<open>load_data.py\<close>: it reads CSV and XLSX files into pandas
  DataFrames and inserts their rows into an SQLite database.

  Strings are lists of characters; a character is a code point below 256. A float is
  modelled by the exact rational it denotes (plus the two infinities and NaN): the
  rounding of binary64 is not part of the model.
\<close>

datatype number = Finite rat | PosInf | NegInf | NaN

text \<open>A cell of a DataFrame: \<^verbatim>\<open>None\<close>, a \<^verbatim>\<open>str\<close>, or a number (int or float).\<close>

datatype cell = PyNone | Str string | Num number

text \<open>\<^verbatim>\<open>pd.notnull(x)\<close> on a scalar: false for \<^verbatim>\<open>None\<close> and for NaN.\<close>

fun notnull :: "cell \<Rightarrow> bool" where
  "notnull PyNone = False"
| "notnull (Num NaN) = False"
| "notnull _ = True"

text \<open>
  A DataFrame: the ordered column labels and the ordered rows, each row holding one cell
  per column. \<^verbatim>\<open>df.iterrows()\<close> yields \<open>rows\<close> in order and \<^verbatim>\<open>tuple(row)\<close> is the row.
\<close>

record dataframe =
  columns :: "string list"
  rows :: "cell list list"

text \<open>The exceptions the program can meet; all are subclasses of \<^verbatim>\<open>Exception\<close>.\<close>

datatype exc = AttributeError | KeyError | ValueError | IndexError
  | ProgrammingError | IntegrityError

subsection \<open>Python string operations\<close>

text \<open>\<^verbatim>\<open>str.isspace\<close> on one character (the same set \<^verbatim>\<open>\s\<close> matches in \<^verbatim>\<open>re\<close>).\<close>

definition is_space :: "char \<Rightarrow> bool" where
  "is_space c = (let n = (of_char c :: nat) in
     (9 \<le> n \<and> n \<le> 13) \<or> (28 \<le> n \<and> n \<le> 32) \<or> n = 133 \<or> n = 160)"

text \<open>\<^verbatim>\<open>s.strip()\<close>\<close>

definition strip :: "string \<Rightarrow> string" where
  "strip s = rev (dropWhile is_space (rev (dropWhile is_space s)))"

text \<open>\<^verbatim>\<open>s.split(sep)\<close> for a one-character separator: never the empty list.\<close>

fun split_on :: "char \<Rightarrow> string \<Rightarrow> string list" where
  "split_on sep [] = [[]]"
| "split_on sep (c # cs) =
     (if c = sep then [] # split_on sep cs
      else (case split_on sep cs of
              [] \<Rightarrow> [[c]]
            | t # ts \<Rightarrow> (c # t) # ts))"

subsection \<open>Column access\<close>

text \<open>
  The position of a label among the columns; \<^verbatim>\<open>df[label]\<close> raises KeyError without one.
  The labels of a DataFrame read from a file are distinct.
\<close>

fun index_of :: "string \<Rightarrow> string list \<Rightarrow> nat option" where
  "index_of x [] = None"
| "index_of x (y # ys) =
     (if x = y then Some 0 else map_option Suc (index_of x ys))"

text \<open>
  \<^verbatim>\<open>df[label] = df[label].apply(f)\<close>: \<open>f\<close> is applied to the cells of the column from
  the first row to the last; the first exception it raises leaves the statement, and
  the column is assigned only when every call has returned.
\<close>

fun apply_cells :: "(cell \<Rightarrow> exc + cell) \<Rightarrow> cell list \<Rightarrow> exc + cell list" where
  "apply_cells f [] = Inr []"
| "apply_cells f (c # cs) =
     (case f c of
        Inl e \<Rightarrow> Inl e
      | Inr c' \<Rightarrow> (case apply_cells f cs of
                     Inl e \<Rightarrow> Inl e
                   | Inr cs' \<Rightarrow> Inr (c' # cs')))"

definition apply_column :: "string \<Rightarrow> (cell \<Rightarrow> exc + cell) \<Rightarrow> dataframe \<Rightarrow> exc + dataframe" where
  "apply_column label f df =
     (case index_of label (columns df) of
        None \<Rightarrow> Inl KeyError
      | Some j \<Rightarrow>
          (case apply_cells f (map (\<lambda>r. r ! j) (rows df)) of
             Inl e \<Rightarrow> Inl e
           | Inr cs \<Rightarrow> Inr (df\<lparr>rows := map (\<lambda>(r, c). r[j := c]) (zip (rows df) cs)\<rparr>)))"

section \<open>Null normalization\<close>

text \<open>
  \<^verbatim>\<open>df.replace(to_replace, value)\<close> with a list of scalars and a scalar: every cell equal
  to a member of the list becomes the value, every other cell is kept. An explicit
  \<^verbatim>\<open>None\<close> is a value like any other (pandas 1.4 and later).
\<close>

definition df_replace :: "cell list \<Rightarrow> cell \<Rightarrow> dataframe \<Rightarrow> dataframe" where
  "df_replace to_replace v df =
     df\<lparr>rows := map (map (\<lambda>c. if c \<in> set to_replace then v else c)) (rows df)\<rparr>"

text \<open>\<^verbatim>\<open>return df.replace(['', 'NA'], None)\<close>\<close>

definition replace_empty_na_with_null :: "dataframe \<Rightarrow> dataframe" where
  "replace_empty_na_with_null df = df_replace [Str '''', Str ''NA''] PyNone df"

section \<open>Identifier explosion\<close>

text \<open>
  Lines 58 to 62 of \<^verbatim>\<open>explode_identifiers\<close>, for one row: the dictionaries the row
  appends to \<^verbatim>\<open>identifier_rows\<close>, each as the cells of its keys IDENTIFIER, CASRN and
  ALTERNATIVE_IDENTIFIER. The loop splits \<^verbatim>\<open>str(row['IDENTIFIER'])\<close>: for a str cell
  that is the cell's text; for every other cell (\<^verbatim>\<open>'None'\<close>, \<^verbatim>\<open>'nan'\<close>, the digits of a
  number) it is a text without the delimiter, so the split has one token and the inner
  loop over \<^verbatim>\<open>identifiers[1:]\<close> has nothing to append.
\<close>

fun identifier_rows_of :: "cell \<Rightarrow> exc + cell list list" where
  "identifier_rows_of (Str s) =
     (case split_on CHR ''|'' s of
        [] \<Rightarrow> Inl IndexError
      | first # alts \<Rightarrow>
          (let casrn = strip first
           in Inr (map (\<lambda>alt_id. [Str casrn, Str casrn, Str (strip alt_id)]) alts)))"
| "identifier_rows_of _ = Inr []"

fun collect_identifier_rows :: "cell list \<Rightarrow> exc + cell list list" where
  "collect_identifier_rows [] = Inr []"
| "collect_identifier_rows (c # cs) =
     (case identifier_rows_of c of
        Inl e \<Rightarrow> Inl e
      | Inr new \<Rightarrow> (case collect_identifier_rows cs of
                      Inl e \<Rightarrow> Inl e
                    | Inr others \<Rightarrow> Inr (new @ others)))"

text \<open>
  Line 65, the function applied to each cell: \<^verbatim>\<open>lambda x: x.split('|')[0].strip()\<close>.
  Only a str has \<^verbatim>\<open>split\<close>; \<^verbatim>\<open>None\<close> and a float raise AttributeError.
\<close>

fun primary_identifier :: "cell \<Rightarrow> exc + cell" where
  "primary_identifier (Str s) =
     (case split_on CHR ''|'' s of
        [] \<Rightarrow> Inl IndexError
      | first # alts \<Rightarrow> Inr (Str (strip first)))"
| "primary_identifier _ = Inl AttributeError"

text \<open>\<^verbatim>\<open>pd.DataFrame(identifier_rows)\<close>: the keys of the dictionaries are the columns; no
  dictionary, no column.\<close>

definition identifier_frame :: "cell list list \<Rightarrow> dataframe" where
  "identifier_frame identifier_rows =
     \<lparr>columns = (if identifier_rows = [] then []
                 else [''IDENTIFIER'', ''CASRN'', ''ALTERNATIVE_IDENTIFIER'']),
      rows = identifier_rows\<rparr>"

text \<open>
  \<^verbatim>\<open>explode_identifiers(df)\<close>. Without an IDENTIFIER column the first
  \<^verbatim>\<open>row['IDENTIFIER']\<close> (or, with no row, \<^verbatim>\<open>df['IDENTIFIER']\<close> on line 65) raises KeyError.
\<close>

definition explode_identifiers :: "dataframe \<Rightarrow> exc + (dataframe \<times> dataframe)" where
  "explode_identifiers df =
     (case index_of ''IDENTIFIER'' (columns df) of
        None \<Rightarrow> Inl KeyError
      | Some j \<Rightarrow>
          (case collect_identifier_rows (map (\<lambda>r. r ! j) (rows df)) of
             Inl e \<Rightarrow> Inl e
           | Inr identifier_rows \<Rightarrow>
               (case apply_column ''IDENTIFIER'' primary_identifier df of
                  Inl e \<Rightarrow> Inl e
                | Inr df' \<Rightarrow> Inr (df', identifier_frame identifier_rows))))"

text \<open>A DataFrame is rectangular: every row has one cell for each column.\<close>

definition rectangular :: "dataframe \<Rightarrow> bool" where
  "rectangular df = list_all (\<lambda>r. length r = length (columns df)) (rows df)"

section \<open>Percentage-aware numeric parsing\<close>

subsection \<open>The built-in \<^verbatim>\<open>float\<close> on a string\<close>

definition is_digit :: "char \<Rightarrow> bool" where
  "is_digit c = (let n = (of_char c :: nat) in 48 \<le> n \<and> n \<le> 57)"

definition digit_val :: "char \<Rightarrow> nat" where
  "digit_val c = of_char c - 48"

text \<open>The number a string of decimal digits denotes.\<close>

definition digits_val :: "string \<Rightarrow> nat" where
  "digits_val ds = foldl (\<lambda>a c. 10 * a + digit_val c) 0 ds"

text \<open>ASCII lower case of one character, and of a string (\<^verbatim>\<open>s.lower()\<close> on ASCII text).\<close>

definition lower_char :: "char \<Rightarrow> char" where
  "lower_char c = (let n = (of_char c :: nat) in
     if 65 \<le> n \<and> n \<le> 90 then char_of (n + 32) else c)"

definition lower :: "string \<Rightarrow> string" where
  "lower s = map lower_char s"

text \<open>
  \<^verbatim>\<open>float\<close> trims the white space of C (\<^verbatim>\<open>Py_ISSPACE\<close>) after turning the non-ASCII
  spaces into blanks: the characters 28 to 31, which \<^verbatim>\<open>str.strip\<close> removes, stay.
\<close>

definition is_float_space :: "char \<Rightarrow> bool" where
  "is_float_space c = (let n = (of_char c :: nat) in
     (9 \<le> n \<and> n \<le> 13) \<or> n = 32 \<or> n = 133 \<or> n = 160)"

definition float_strip :: "string \<Rightarrow> string" where
  "float_strip s = rev (dropWhile is_float_space (rev (dropWhile is_float_space s)))"

text \<open>
  The grammar of the argument: \<^verbatim>\<open>digitpart ::= digit (["_"] digit)*\<close>. \<open>digitpart_tail\<close>
  reads \<^verbatim>\<open>(["_"] digit)*\<close> and returns the digits read and the text left.
\<close>

fun digitpart_tail :: "string \<Rightarrow> string \<times> string" where
  "digitpart_tail [] = ([], [])"
| "digitpart_tail [c] = (if is_digit c then ([c], []) else ([], [c]))"
| "digitpart_tail (c # d # cs) =
     (if is_digit c then
        (case digitpart_tail (d # cs) of (ds, r) \<Rightarrow> (c # ds, r))
      else if c = CHR ''_'' \<and> is_digit d then
        (case digitpart_tail cs of (ds, r) \<Rightarrow> (d # ds, r))
      else ([], c # d # cs))"

definition digitpart :: "string \<Rightarrow> string \<times> string" where
  "digitpart s =
     (case s of
        [] \<Rightarrow> ([], [])
      | c # cs \<Rightarrow>
          if is_digit c then (case digitpart_tail cs of (ds, r) \<Rightarrow> (c # ds, r))
          else ([], s))"

text \<open>An optional sign: whether it is a minus, and the text after it.\<close>

definition take_sign :: "string \<Rightarrow> bool \<times> string" where
  "take_sign s =
     (case s of
        [] \<Rightarrow> (False, [])
      | c # cs \<Rightarrow>
          if c = CHR ''-'' then (True, cs)
          else if c = CHR ''+'' then (False, cs)
          else (False, s))"

text \<open>
  \<^verbatim>\<open>exponent ::= ("e" | "E") ["+" | "-"] digitpart\<close>, to the end of the text; no
  exponent is the exponent 0. \<open>None\<close> when the text is neither.
\<close>

definition exponent :: "string \<Rightarrow> int option" where
  "exponent s =
     (case s of
        [] \<Rightarrow> Some 0
      | c # cs \<Rightarrow>
          if c = CHR ''e'' \<or> c = CHR ''E'' then
            (case take_sign cs of
               (neg, t) \<Rightarrow>
                 (case digitpart t of
                    (ds, r) \<Rightarrow>
                      if ds = [] \<or> r \<noteq> [] then None
                      else Some (if neg then - int (digits_val ds) else int (digits_val ds))))
          else None)"

text \<open>
  \<^verbatim>\<open>float(s)\<close>: an optional sign, then \<^verbatim>\<open>inf\<close>, \<^verbatim>\<open>infinity\<close> or \<^verbatim>\<open>nan\<close> in any case, or
  \<^verbatim>\<open>[digitpart] "." digitpart | digitpart ["."]\<close> with an optional exponent. Anything
  else is a ValueError.
\<close>

definition py_float :: "string \<Rightarrow> exc + number" where
  "py_float s =
     (case take_sign (float_strip s) of
        (neg, u) \<Rightarrow>
          if lower u = ''inf'' \<or> lower u = ''infinity'' then Inr (if neg then NegInf else PosInf)
          else if lower u = ''nan'' then Inr NaN
          else
            (case digitpart u of
               (ip, r1) \<Rightarrow>
                 (case (case r1 of
                          [] \<Rightarrow> ([], [])
                        | c # cs \<Rightarrow> if c = CHR ''.'' then digitpart cs else ([], r1)) of
                    (fp, r2) \<Rightarrow>
                      if ip = [] \<and> fp = [] then Inl ValueError
                      else
                        (case exponent r2 of
                           None \<Rightarrow> Inl ValueError
                         | Some e \<Rightarrow>
                             Inr (Finite ((if neg then - 1 else 1)
                                          * (of_nat (digits_val (ip @ fp)) / 10 ^ length fp)
                                          * 10 powi e))))))"

subsection \<open>\<^verbatim>\<open>to_float\<close>\<close>

text \<open>\<^verbatim>\<open>x / 100.0\<close>\<close>

fun divide_100 :: "number \<Rightarrow> number" where
  "divide_100 (Finite q) = Finite (q / 100)"
| "divide_100 x = x"

text \<open>
  The body of the \<^verbatim>\<open>try\<close>. \<^verbatim>\<open>str(value)\<close> of a str is the value; of a number it is
  its digits, which hold no percent sign and which \<^verbatim>\<open>float\<close> reads back as the same
  number.
\<close>

definition to_float_try :: "cell \<Rightarrow> exc + cell" where
  "to_float_try v =
     (if notnull v then
        (case v of
           Str s \<Rightarrow>
             (let value_str = strip s in
              if CHR ''%'' \<in> set value_str then
                (case py_float (filter (\<lambda>c. c \<noteq> CHR ''%'') value_str) of
                   Inl e \<Rightarrow> Inl e
                 | Inr x \<Rightarrow> Inr (Num (divide_100 x)))
              else
                (case py_float value_str of
                   Inl e \<Rightarrow> Inl e
                 | Inr x \<Rightarrow> Inr (Num x)))
         | _ \<Rightarrow> Inr v)
      else Inr PyNone)"

text \<open>\<^verbatim>\<open>to_float(value)\<close>: the body, with \<^verbatim>\<open>except ValueError: return None\<close>.\<close>

definition to_float :: "cell \<Rightarrow> exc + cell" where
  "to_float v =
     (case to_float_try v of
        Inl e \<Rightarrow> if e = ValueError then Inr PyNone else Inl e
      | Inr r \<Rightarrow> Inr r)"

text \<open>\<^verbatim>\<open>convert_compositions(df)\<close>: the three columns in turn.\<close>

definition convert_compositions :: "dataframe \<Rightarrow> exc + dataframe" where
  "convert_compositions df =
     (case apply_column ''raw_min_comp'' to_float df of
        Inl e \<Rightarrow> Inl e
      | Inr df1 \<Rightarrow>
          (case apply_column ''raw_central_comp'' to_float df1 of
             Inl e \<Rightarrow> Inl e
           | Inr df2 \<Rightarrow> apply_column ''raw_max_comp'' to_float df2))"

section \<open>Date canonicalization\<close>

subsection \<open>\<^verbatim>\<open>datetime.strptime\<close>\<close>

text \<open>
  \<^verbatim>\<open>strptime\<close> turns the format into a regular expression (\<^verbatim>\<open>TimeRE.pattern\<close>): a run
  of white space becomes \<^verbatim>\<open>\s+\<close>, a percent sign and the next character become the
  group of that directive, every other character stands for itself. The month names are
  those of the C locale.
\<close>

datatype piece = Directive char | Literal char | Whitespace

fun pattern :: "string \<Rightarrow> piece list" where
  "pattern [] = []"
| "pattern [c] = (if is_space c then [Whitespace] else [Literal c])"
| "pattern (c # d # cs) =
     (if c = CHR ''%'' then Directive d # pattern cs
      else if is_space c then
        (case pattern (d # cs) of
           Whitespace # ps \<Rightarrow> Whitespace # ps
         | ps \<Rightarrow> Whitespace # ps)
      else Literal c # pattern (d # cs))"

definition f_month :: "string list" where
  "f_month = ['''', ''january'', ''february'', ''march'', ''april'', ''may'', ''june'',
     ''july'', ''august'', ''september'', ''october'', ''november'', ''december'']"

definition a_month :: "string list" where
  "a_month = ['''', ''jan'', ''feb'', ''mar'', ''apr'', ''may'', ''jun'',
     ''jul'', ''aug'', ''sep'', ''oct'', ''nov'', ''dec'']"

text \<open>
  One alternative of a group: the first \<open>n\<close> characters, when there are that many and
  they satisfy \<open>P\<close>. The result lists the ways to match, each with the text left.
\<close>

definition take_if :: "nat \<Rightarrow> (string \<Rightarrow> bool) \<Rightarrow> string \<Rightarrow> (string \<times> string) list" where
  "take_if n P s = (if n \<le> length s \<and> P (take n s) then [(take n s, drop n s)] else [])"

definition in_range :: "char \<Rightarrow> char \<Rightarrow> char \<Rightarrow> bool" where
  "in_range lo hi c = ((of_char lo :: nat) \<le> of_char c \<and> (of_char c :: nat) \<le> of_char hi)"

text \<open>
  \<^verbatim>\<open>__seqToRE\<close>: the names from the longest to the shortest (a stable sort), tried in
  that order; the expression is compiled with \<^verbatim>\<open>IGNORECASE\<close>.
\<close>

definition seqToRE :: "string list \<Rightarrow> string \<Rightarrow> (string \<times> string) list" where
  "seqToRE to_convert s =
     concat (map (\<lambda>name. take_if (length name) (\<lambda>t. lower t = name) s)
                 (sort_key (\<lambda>name. - int (length name)) to_convert))"

text \<open>
  The groups of the directives the formats use, alternatives in the order of the
  expression:
  \<^verbatim>\<open>d: 3[0-1]|[1-2]\d|0[1-9]|[1-9]| [1-9]\<close>, \<^verbatim>\<open>m: 1[0-2]|0[1-9]|[1-9]\<close>, \<^verbatim>\<open>y: \d\d\<close>,
  \<^verbatim>\<open>Y: \d\d\d\d\<close>, \<^verbatim>\<open>B\<close> and \<^verbatim>\<open>b\<close> the month names. Another directive has no group here.
\<close>

definition directive_alts :: "char \<Rightarrow> string \<Rightarrow> (string \<times> string) list" where
  "directive_alts d s =
     (if d = CHR ''d'' then
        take_if 2 (\<lambda>t. t ! 0 = CHR ''3'' \<and> in_range CHR ''0'' CHR ''1'' (t ! 1)) s
        @ take_if 2 (\<lambda>t. in_range CHR ''1'' CHR ''2'' (t ! 0) \<and> is_digit (t ! 1)) s
        @ take_if 2 (\<lambda>t. t ! 0 = CHR ''0'' \<and> in_range CHR ''1'' CHR ''9'' (t ! 1)) s
        @ take_if 1 (\<lambda>t. in_range CHR ''1'' CHR ''9'' (t ! 0)) s
        @ take_if 2 (\<lambda>t. t ! 0 = CHR '' '' \<and> in_range CHR ''1'' CHR ''9'' (t ! 1)) s
      else if d = CHR ''m'' then
        take_if 2 (\<lambda>t. t ! 0 = CHR ''1'' \<and> in_range CHR ''0'' CHR ''2'' (t ! 1)) s
        @ take_if 2 (\<lambda>t. t ! 0 = CHR ''0'' \<and> in_range CHR ''1'' CHR ''9'' (t ! 1)) s
        @ take_if 1 (\<lambda>t. in_range CHR ''1'' CHR ''9'' (t ! 0)) s
      else if d = CHR ''y'' then take_if 2 (list_all is_digit) s
      else if d = CHR ''Y'' then take_if 4 (list_all is_digit) s
      else if d = CHR ''B'' then seqToRE (tl f_month) s
      else if d = CHR ''b'' then seqToRE (tl a_month) s
      else [])"

text \<open>
  The ways one piece matches at the start of a text. \<^verbatim>\<open>\s+\<close> is greedy: the longest run
  first, then the shorter ones. A literal matches without regard to case.
\<close>

definition piece_alts :: "piece \<Rightarrow> string \<Rightarrow> (string \<times> string) list" where
  "piece_alts p s =
     (case p of
        Directive d \<Rightarrow> directive_alts d s
      | Literal c \<Rightarrow> take_if 1 (\<lambda>t. lower t = lower [c]) s
      | Whitespace \<Rightarrow>
          map (\<lambda>k. (take k s, drop k s)) (rev [1 ..< Suc (length (takeWhile is_space s))]))"

text \<open>
  All matches of the expression at the start of the text, in the order a backtracking
  matcher finds them, each with its groups and the text left. \<^verbatim>\<open>re.match\<close> returns the
  first.
\<close>

fun re_match :: "piece list \<Rightarrow> string \<Rightarrow> ((char \<times> string) list \<times> string) list" where
  "re_match [] s = [([], s)]"
| "re_match (p # ps) s =
     concat (map (\<lambda>(txt, rest).
                    map (\<lambda>(groups, r).
                           ((case p of Directive d \<Rightarrow> (d, txt) # groups | _ \<Rightarrow> groups), r))
                        (re_match ps rest))
                 (piece_alts p s))"

record date =
  year :: nat
  month :: nat
  day :: nat

text \<open>\<^verbatim>\<open>int(s)\<close> on the text of a group: digits, after a blank for \<^verbatim>\<open>' [1-9]'\<close>.\<close>

definition py_int :: "string \<Rightarrow> nat" where
  "py_int s = digits_val (strip s)"

text \<open>
  The loop over the groups found: \<open>year\<close> starts as \<^verbatim>\<open>None\<close>, month and day as 1.
  \<^verbatim>\<open>list.index\<close> raises ValueError for a name that is not in the list.
\<close>

fun convert_groups :: "(char \<times> string) list \<Rightarrow> nat option \<times> nat \<times> nat
    \<Rightarrow> exc + (nat option \<times> nat \<times> nat)" where
  "convert_groups [] acc = Inr acc"
| "convert_groups ((k, txt) # gs) (y, m, d) =
     (if k = CHR ''y'' then
        convert_groups gs
          (Some (if py_int txt \<le> 68 then py_int txt + 2000 else py_int txt + 1900), m, d)
      else if k = CHR ''Y'' then convert_groups gs (Some (py_int txt), m, d)
      else if k = CHR ''m'' then convert_groups gs (y, py_int txt, d)
      else if k = CHR ''B'' then
        (case index_of (lower txt) f_month of
           None \<Rightarrow> Inl ValueError
         | Some i \<Rightarrow> convert_groups gs (y, i, d))
      else if k = CHR ''b'' then
        (case index_of (lower txt) a_month of
           None \<Rightarrow> Inl ValueError
         | Some i \<Rightarrow> convert_groups gs (y, i, d))
      else if k = CHR ''d'' then convert_groups gs (y, m, py_int txt)
      else convert_groups gs (y, m, d))"

definition isleap :: "nat \<Rightarrow> bool" where
  "isleap y = (y mod 4 = 0 \<and> (y mod 100 \<noteq> 0 \<or> y mod 400 = 0))"

definition days_in_month :: "nat \<Rightarrow> nat \<Rightarrow> nat" where
  "days_in_month y m =
     (if m = 2 then (if isleap y then 29 else 28)
      else if m = 4 \<or> m = 6 \<or> m = 9 \<or> m = 11 then 30 else 31)"

text \<open>\<^verbatim>\<open>datetime.date(year, month, day)\<close>: ValueError outside the calendar.\<close>

definition make_date :: "nat \<Rightarrow> nat \<Rightarrow> nat \<Rightarrow> exc + date" where
  "make_date y m d =
     (if 1 \<le> y \<and> y \<le> 9999 \<and> 1 \<le> m \<and> m \<le> 12 \<and> 1 \<le> d \<and> d \<le> days_in_month y m
      then Inr \<lparr>year = y, month = m, day = d\<rparr>
      else Inl ValueError)"

text \<open>
  \<^verbatim>\<open>datetime.strptime(data_string, format)\<close>, for formats of the directives above:
  no match, text left after the match, or a date outside the calendar is a ValueError;
  without a year group the year is 1900 (1904 for 29 February).
\<close>

definition strptime :: "string \<Rightarrow> string \<Rightarrow> exc + date" where
  "strptime data_string format =
     (case re_match (pattern format) data_string of
        [] \<Rightarrow> Inl ValueError
      | (found, rest) # others \<Rightarrow>
          if rest \<noteq> [] then Inl ValueError
          else
            (case convert_groups found (None, 1, 1) of
               Inl e \<Rightarrow> Inl e
             | Inr (y, m, d) \<Rightarrow>
                 make_date (case y of
                              None \<Rightarrow> if m = 2 \<and> d = 29 then 1904 else 1900
                            | Some v \<Rightarrow> v) m d))"

subsection \<open>\<^verbatim>\<open>strftime\<close>\<close>

text \<open>\<^verbatim>\<open>str(n)\<close> for a natural number, and \<^verbatim>\<open>s.zfill(w)\<close> on digits.\<close>

fun str_nat :: "nat \<Rightarrow> string" where
  "str_nat n = (if n < 10 then [char_of (48 + n)]
                else str_nat (n div 10) @ [char_of (48 + n mod 10)])"

declare str_nat.simps [simp del]

definition zfill :: "nat \<Rightarrow> string \<Rightarrow> string" where
  "zfill w s = replicate (w - length s) CHR ''0'' @ s"

text \<open>
  \<^verbatim>\<open>dt.strftime("%Y-%m-%d")\<close>. Month and day always have two digits. The year is
  written by the C library: with four digits, zero-filled, on some platforms
  (\<open>year_padded\<close>), and without leading zeros on others (glibc before Python 3.13), where
  the year 999 gives \<^verbatim>\<open>999\<close>.
\<close>

definition strftime :: "bool \<Rightarrow> date \<Rightarrow> string" where
  "strftime year_padded dt =
     (if year_padded then zfill 4 (str_nat (year dt)) else str_nat (year dt))
     @ ''-'' @ zfill 2 (str_nat (month dt)) @ ''-'' @ zfill 2 (str_nat (day dt))"

subsection \<open>\<^verbatim>\<open>parse_date\<close> and \<^verbatim>\<open>convert_dates\<close>\<close>

definition date_formats :: "string list" where
  "date_formats = [''%Y-%m-%d'', ''%d-%m-%Y'', ''%d-%b-%y'', ''%d-%b-%Y'', ''%d-%B-%Y'',
     ''%B-%y'', ''%b-%y'', ''%B %d, %Y'', ''%B %Y'', ''%Y'', ''%d/%m/%Y'', ''%m/%d/%Y'',
     ''%d %B %Y'', ''%m.%d.%Y'']"

text \<open>
  The body of the \<^verbatim>\<open>try\<close> for one format:
  \<^verbatim>\<open>datetime.strptime(date_str.strip(), fmt).strftime("%Y-%m-%d")\<close>. Only a str has
  \<^verbatim>\<open>strip\<close>: \<^verbatim>\<open>None\<close> and a number raise AttributeError.
\<close>

definition parse_with :: "bool \<Rightarrow> string \<Rightarrow> cell \<Rightarrow> exc + string" where
  "parse_with year_padded fmt date_str =
     (case date_str of
        Str s \<Rightarrow>
          (case strptime (strip s) fmt of
             Inl e \<Rightarrow> Inl e
           | Inr dt \<Rightarrow> Inr (strftime year_padded dt))
      | _ \<Rightarrow> Inl AttributeError)"

text \<open>The loop over the formats, with \<^verbatim>\<open>except (ValueError, AttributeError): continue\<close>.\<close>

fun try_formats :: "bool \<Rightarrow> string list \<Rightarrow> cell \<Rightarrow> exc + cell" where
  "try_formats year_padded [] date_str = Inr PyNone"
| "try_formats year_padded (fmt # fmts) date_str =
     (case parse_with year_padded fmt date_str of
        Inr newDate \<Rightarrow> Inr (Str newDate)
      | Inl e \<Rightarrow>
          if e = ValueError \<or> e = AttributeError then try_formats year_padded fmts date_str
          else Inl e)"

definition parse_date :: "bool \<Rightarrow> cell \<Rightarrow> exc + cell" where
  "parse_date year_padded date_str = try_formats year_padded date_formats date_str"

text \<open>\<^verbatim>\<open>df[date_column].apply(lambda x: parse_date(x) if pd.notnull(x) else None)\<close>\<close>

definition convert_dates :: "bool \<Rightarrow> dataframe \<Rightarrow> string \<Rightarrow> exc + dataframe" where
  "convert_dates year_padded df date_column =
     apply_column date_column
       (\<lambda>x. if notnull x then parse_date year_padded x else Inr PyNone) df"

section \<open>The database and the table imports\<close>

text \<open>
  The SQLite connection: the rows committed to the database file, the rows inserted in
  the open transaction and not yet committed, and the lines printed so far. A row is kept
  with the name of its table, in the order of insertion.
\<close>

datatype message = Imported string | NotImported string | ErrorImporting string exc

record db_state =
  committed :: "(string \<times> cell list) list"
  pending :: "(string \<times> cell list) list"
  printed :: "message list"

text \<open>
  How a call ends: it returns, it raises an exception (a subclass of \<^verbatim>\<open>Exception\<close>), or
  it raises \<^verbatim>\<open>SystemExit\<close> through \<^verbatim>\<open>exit(code)\<close>, which \<^verbatim>\<open>except Exception\<close> does not catch.
\<close>

datatype status = Done | Raised exc | SystemExit nat

text \<open>
  What the program does not fix: whether the platform's \<^verbatim>\<open>strftime\<close> zero-fills the
  year, and which rows the database accepts. The schema is a file given on the command
  line; \<open>accepts\<close> stands for its constraints: given the rows visible to the connection,
  the table and the new row, whether the INSERT succeeds.
\<close>

record env =
  year_padded :: bool
  accepts :: "(string \<times> cell list) list \<Rightarrow> string \<Rightarrow> cell list \<Rightarrow> bool"

definition print :: "message \<Rightarrow> db_state \<Rightarrow> db_state" where
  "print m st = st\<lparr>printed := printed st @ [m]\<rparr>"

text \<open>\<^verbatim>\<open>conn.commit()\<close> and the rollback of the open transaction.\<close>

definition commit :: "db_state \<Rightarrow> db_state" where
  "commit st = st\<lparr>committed := committed st @ pending st, pending := []\<rparr>"

definition rollback :: "db_state \<Rightarrow> db_state" where
  "rollback st = st\<lparr>pending := []\<rparr>"

text \<open>
  \<^verbatim>\<open>cursor.execute('INSERT INTO t (...) VALUES (?, ..., ?)', params)\<close> with \<open>n\<close> question
  marks: a wrong number of parameters is a ProgrammingError, a row the database rejects
  an IntegrityError; a statement that fails inserts nothing and leaves the transaction
  open.
\<close>

definition execute :: "env \<Rightarrow> string \<Rightarrow> nat \<Rightarrow> cell list \<Rightarrow> db_state \<Rightarrow> status \<times> db_state" where
  "execute ev table n params st =
     (if length params \<noteq> n then (Raised ProgrammingError, st)
      else if \<not> accepts ev (committed st @ pending st) table params
        then (Raised IntegrityError, st)
      else (Done, st\<lparr>pending := pending st @ [(table, params)]\<rparr>))"

text \<open>\<^verbatim>\<open>for _, row in df.iterrows(): cursor.execute(..., tuple(row))\<close>\<close>

fun insert_rows :: "env \<Rightarrow> string \<Rightarrow> nat \<Rightarrow> cell list list \<Rightarrow> db_state \<Rightarrow> status \<times> db_state" where
  "insert_rows ev table n [] st = (Done, st)"
| "insert_rows ev table n (r # rs) st =
     (case execute ev table n r st of
        (Done, st') \<Rightarrow> insert_rows ev table n rs st'
      | other \<Rightarrow> other)"

text \<open>The loop, then \<^verbatim>\<open>conn.commit()\<close> and \<^verbatim>\<open>cursor.close()\<close>: the body of the plain imports.\<close>

definition insert_and_commit :: "env \<Rightarrow> string \<Rightarrow> nat \<Rightarrow> dataframe \<Rightarrow> db_state \<Rightarrow> status \<times> db_state" where
  "insert_and_commit ev table n df st =
     (case insert_rows ev table n (rows df) st of
        (Done, st') \<Rightarrow> (Done, commit st')
      | other \<Rightarrow> other)"

definition chemical_dictionary_import_data :: "env \<Rightarrow> dataframe \<Rightarrow> db_state \<Rightarrow> status \<times> db_state" where
  "chemical_dictionary_import_data ev df st = insert_and_commit ev ''chemical_dictionary'' 7 df st"

definition QSUR_data_import_data :: "env \<Rightarrow> dataframe \<Rightarrow> db_state \<Rightarrow> status \<times> db_state" where
  "QSUR_data_import_data ev df st = insert_and_commit ev ''QSUR_data'' 5 df st"

definition list_presence_dictionary_import_data :: "env \<Rightarrow> dataframe \<Rightarrow> db_state \<Rightarrow> status \<times> db_state" where
  "list_presence_dictionary_import_data ev df st =
     insert_and_commit ev ''list_presence_dictionary'' 4 df st"

definition list_presence_data_import_data :: "env \<Rightarrow> dataframe \<Rightarrow> db_state \<Rightarrow> status \<times> db_state" where
  "list_presence_data_import_data ev df st = insert_and_commit ev ''list_presence_data'' 3 df st"

definition HHE_data_import_data :: "env \<Rightarrow> dataframe \<Rightarrow> db_state \<Rightarrow> status \<times> db_state" where
  "HHE_data_import_data ev df st = insert_and_commit ev ''HHE_data'' 2 df st"

definition functional_use_dictionary_import_data :: "env \<Rightarrow> dataframe \<Rightarrow> db_state \<Rightarrow> status \<times> db_state" where
  "functional_use_dictionary_import_data ev df st =
     insert_and_commit ev ''functional_use_dictionary'' 4 df st"

definition functional_use_data_import_data :: "env \<Rightarrow> dataframe \<Rightarrow> db_state \<Rightarrow> status \<times> db_state" where
  "functional_use_data_import_data ev df st = insert_and_commit ev ''functional_use_data'' 3 df st"

definition PUC_dictionary_import_data :: "env \<Rightarrow> dataframe \<Rightarrow> db_state \<Rightarrow> status \<times> db_state" where
  "PUC_dictionary_import_data ev df st = insert_and_commit ev ''PUC_dictionary'' 7 df st"

text \<open>\<^verbatim>\<open>document_dictionary_import_data\<close>: \<^verbatim>\<open>convert_dates(df, "doc_date")\<close> first.\<close>

definition document_dictionary_import_data :: "env \<Rightarrow> dataframe \<Rightarrow> db_state \<Rightarrow> status \<times> db_state" where
  "document_dictionary_import_data ev df st =
     (case convert_dates (year_padded ev) df ''doc_date'' of
        Inl e \<Rightarrow> (Raised e, st)
      | Inr df' \<Rightarrow> insert_and_commit ev ''document_dictionary'' 4 df' st)"

text \<open>\<^verbatim>\<open>product_composition_data_import_data\<close>: \<^verbatim>\<open>convert_compositions(df)\<close> first.\<close>

definition product_composition_data_import_data :: "env \<Rightarrow> dataframe \<Rightarrow> db_state \<Rightarrow> status \<times> db_state" where
  "product_composition_data_import_data ev df st =
     (case convert_compositions df of
        Inl e \<Rightarrow> (Raised e, st)
      | Inr df' \<Rightarrow> insert_and_commit ev ''product_composition_data'' 14 df' st)"

text \<open>
  \<^verbatim>\<open>Identifier_import_data\<close>: each row gives the parameters
  \<^verbatim>\<open>(row['IDENTIFIER'], row['CASRN'], row['ALTERNATIVE_IDENTIFIER'])\<close>.
\<close>

definition identifier_params :: "string list \<Rightarrow> cell list \<Rightarrow> exc + cell list" where
  "identifier_params cols r =
     (case index_of ''IDENTIFIER'' cols of
        None \<Rightarrow> Inl KeyError
      | Some a \<Rightarrow>
          (case index_of ''CASRN'' cols of
             None \<Rightarrow> Inl KeyError
           | Some b \<Rightarrow>
               (case index_of ''ALTERNATIVE_IDENTIFIER'' cols of
                  None \<Rightarrow> Inl KeyError
                | Some c \<Rightarrow> Inr [r ! a, r ! b, r ! c])))"

fun insert_identifier_rows :: "env \<Rightarrow> string list \<Rightarrow> cell list list \<Rightarrow> db_state \<Rightarrow> status \<times> db_state" where
  "insert_identifier_rows ev cols [] st = (Done, st)"
| "insert_identifier_rows ev cols (r # rs) st =
     (case identifier_params cols r of
        Inl e \<Rightarrow> (Raised e, st)
      | Inr params \<Rightarrow>
          (case execute ev ''Identifier'' 3 params st of
             (Done, st') \<Rightarrow> insert_identifier_rows ev cols rs st'
           | other \<Rightarrow> other))"

definition Identifier_import_data :: "env \<Rightarrow> dataframe \<Rightarrow> db_state \<Rightarrow> status \<times> db_state" where
  "Identifier_import_data ev identifier_df st =
     (case insert_identifier_rows ev (columns identifier_df) (rows identifier_df) st of
        (Done, st') \<Rightarrow> (Done, commit st')
      | other \<Rightarrow> other)"

text \<open>
  \<^verbatim>\<open>df.where(pd.notnull(df), None)\<close>: a null cell becomes \<^verbatim>\<open>None\<close> (in a float column
  pandas may keep NaN; SQLite stores NULL for both).
\<close>

definition where_notnull :: "dataframe \<Rightarrow> dataframe" where
  "where_notnull df = df\<lparr>rows := map (map (\<lambda>c. if notnull c then c else PyNone)) (rows df)\<rparr>"

text \<open>
  \<^verbatim>\<open>DSSTox_import_data\<close>: identifier explosion, the rows of the DSSTox table, then the
  rows of the Identifier table and the commits.
\<close>

definition DSSTox_import_data :: "env \<Rightarrow> dataframe \<Rightarrow> db_state \<Rightarrow> status \<times> db_state" where
  "DSSTox_import_data ev df st =
     (case explode_identifiers df of
        Inl e \<Rightarrow> (Raised e, st)
      | Inr (dsstox_df, identifier_df) \<Rightarrow>
          (case insert_rows ev ''DSSTox'' 12 (rows (where_notnull dsstox_df)) st of
             (Done, st1) \<Rightarrow>
               (case Identifier_import_data ev (where_notnull identifier_df) st1 of
                  (Done, st2) \<Rightarrow> (Done, commit st2)
                | other \<Rightarrow> other)
           | other \<Rightarrow> other))"

text \<open>
  \<^verbatim>\<open>import_table_data(conn, table_name, df)\<close>: the chain of comparisons in the order of
  the source; an unknown name prints and calls \<^verbatim>\<open>exit(1)\<close>; after the import of a known
  table the success line is printed.
\<close>

definition import_table_data :: "env \<Rightarrow> string \<Rightarrow> dataframe \<Rightarrow> db_state \<Rightarrow> status \<times> db_state" where
  "import_table_data ev table_name df st =
     (case
        (if table_name = ''document_dictionary'' then
           Some (document_dictionary_import_data ev df st)
         else if table_name = ''chemical_dictionary'' then
           Some (chemical_dictionary_import_data ev df st)
         else if table_name = ''list_presence_dictionary'' then
           Some (list_presence_dictionary_import_data ev df st)
         else if table_name = ''PUC_dictionary'' then
           Some (PUC_dictionary_import_data ev df st)
         else if table_name = ''functional_use_dictionary'' then
           Some (functional_use_dictionary_import_data ev df st)
         else if table_name = ''DSSTox'' then
           Some (DSSTox_import_data ev df st)
         else if table_name = ''QSUR_data'' then
           Some (QSUR_data_import_data ev df st)
         else if table_name = ''functional_use_data'' then
           Some (functional_use_data_import_data ev df st)
         else if table_name = ''product_composition_data'' then
           Some (product_composition_data_import_data ev df st)
         else if table_name = ''list_presence_data'' then
           Some (list_presence_data_import_data ev df st)
         else if table_name = ''HHE_data'' then
           Some (HHE_data_import_data ev df st)
         else None) of
        None \<Rightarrow> (SystemExit 1, print (NotImported table_name) st)
      | Some (Done, st') \<Rightarrow> (Done, print (Imported table_name) st')
      | Some other \<Rightarrow> other)"

section \<open>The orchestrator\<close>

text \<open>
  The inner loop of \<^verbatim>\<open>import_data_to_DB\<close>, inside the \<^verbatim>\<open>try\<close>: each DataFrame of the
  table is null-normalized and then handed to \<^verbatim>\<open>import_table_data\<close>.
\<close>

fun import_df_list :: "env \<Rightarrow> string \<Rightarrow> dataframe list \<Rightarrow> db_state \<Rightarrow> status \<times> db_state" where
  "import_df_list ev table_name [] st = (Done, st)"
| "import_df_list ev table_name (df # dfs) st =
     (case import_table_data ev table_name (replace_empty_na_with_null df) st of
        (Done, st') \<Rightarrow> import_df_list ev table_name dfs st'
      | other \<Rightarrow> other)"

text \<open>
  The outer loop over \<^verbatim>\<open>data.items()\<close>, a dictionary in insertion order, with
  \<^verbatim>\<open>except Exception as e: print(...)\<close> around the inner loop.
\<close>

fun import_tables :: "env \<Rightarrow> (string \<times> dataframe list) list \<Rightarrow> db_state \<Rightarrow> status \<times> db_state" where
  "import_tables ev [] st = (Done, st)"
| "import_tables ev ((table_name, df_list) # rest) st =
     (case import_df_list ev table_name df_list st of
        (Done, st') \<Rightarrow> import_tables ev rest st'
      | (Raised e, st') \<Rightarrow> import_tables ev rest (print (ErrorImporting table_name e) st')
      | (SystemExit code, st') \<Rightarrow> (SystemExit code, st'))"

text \<open>
  \<^verbatim>\<open>import_data_to_DB\<close>: the loop inside \<^verbatim>\<open>with sql.connect(db_path) as conn\<close>, which
  commits when the block ends and rolls the open transaction back when an exception
  leaves it.
\<close>

definition import_data_to_DB :: "env \<Rightarrow> (string \<times> dataframe list) list \<Rightarrow> db_state \<Rightarrow> status \<times> db_state" where
  "import_data_to_DB ev data st =
     (case import_tables ev data st of
        (Done, st') \<Rightarrow> (Done, commit st')
      | (other, st') \<Rightarrow> (other, rollback st'))"

subsection \<open>The file paths and the extraction\<close>

text \<open>\<^verbatim>\<open>file_paths[key].append(path)\<close> on a \<^verbatim>\<open>defaultdict(list)\<close>, kept in insertion order.\<close>

definition dict_append :: "string \<Rightarrow> string \<Rightarrow> (string \<times> string list) list
    \<Rightarrow> (string \<times> string list) list" where
  "dict_append key path d =
     (if key \<in> fst ` set d
      then map (\<lambda>(k, paths). if k = key then (k, paths @ [path]) else (k, paths)) d
      else d @ [(key, [path])])"

text \<open>
  The inner loop of the check, \<^verbatim>\<open>for file_path in paths: ... paths.remove(file_path)\<close>:
  the iterator is an index into the list that the loop shortens.
\<close>

function verify_paths :: "(string \<Rightarrow> bool) \<Rightarrow> string list \<Rightarrow> nat \<Rightarrow> string list" where
  "verify_paths path_exists paths i =
     (if i < length paths then
        (if \<not> path_exists (paths ! i)
         then verify_paths path_exists (remove1 (paths ! i) paths) (Suc i)
         else verify_paths path_exists paths (Suc i))
      else paths)"
  by pat_completeness auto
termination
  by (relation "measure (\<lambda>(path_exists, paths, i). length paths - i)")
    (auto simp: length_remove1)

declare verify_paths.simps [simp del]

fun verify_tables :: "(string \<Rightarrow> bool) \<Rightarrow> (string \<times> string list) list
    \<Rightarrow> nat + (string \<times> string list) list" where
  "verify_tables path_exists [] = Inr []"
| "verify_tables path_exists ((table_name, paths) # rest) =
     (let kept = verify_paths path_exists paths 0 in
      if kept = [] then Inl 1
      else (case verify_tables path_exists rest of
              Inl code \<Rightarrow> Inl code
            | Inr checked \<Rightarrow> Inr ((table_name, kept) # checked)))"

text \<open>
  \<^verbatim>\<open>parse_file_paths(data_dir)\<close>: the keys are created in the order of the
  assignments; \<open>Inl code\<close> is \<^verbatim>\<open>exit(code)\<close>. \<open>path_exists\<close> is \<^verbatim>\<open>os.path.exists\<close>. The
  lines it prints for missing files are left out.
\<close>

definition parse_file_paths :: "(string \<Rightarrow> bool) \<Rightarrow> string \<Rightarrow> nat + (string \<times> string list) list" where
  "parse_file_paths path_exists data_dir =
     verify_tables path_exists
       (dict_append ''HHE_data'' (data_dir @ ''/HHE_data_20201216.csv'')
       (dict_append ''list_presence_dictionary''
          (data_dir @ ''/list_presence_dictionary_20201216.csv'')
       (dict_append ''product_composition_data''
          (data_dir @ ''/product_composition_data_20201216.csv'')
       (dict_append ''functional_use_data'' (data_dir @ ''/functional_use_data_20201216.csv'')
       (dict_append ''QSUR_data'' (data_dir @ ''/QSUR_data_20201216.csv'')
       (dict_append ''functional_use_dictionary''
          (data_dir @ ''/functional_use_dictionary_20201216.csv'')
       (dict_append ''PUC_dictionary'' (data_dir @ ''/PUC_dictionary_20201216.csv'')
       (dict_append ''list_presence_data'' (data_dir @ ''/list_presence_data_20201216.csv'')
       (dict_append ''chemical_dictionary'' (data_dir @ ''/chemical_dictionary_20201216.csv'')
       (dict_append ''document_dictionary'' (data_dir @ ''/document_dictionary_20201216.csv'')
       (foldl (\<lambda>d i. dict_append ''DSSTox''
                         (data_dir @ ''/DSSToxDump'' @ str_nat i @ ''.xlsx'') d)
              [] [1 ..< 14])))))))))))"

text \<open>
  \<^verbatim>\<open>extract_data(file_paths)\<close>. \<open>load_file\<close> stands for the reader: a DataFrame, or
  the code of its \<^verbatim>\<open>exit\<close>. \<^verbatim>\<open>df.empty\<close> holds without a row or without a column.
\<close>

fun load_all :: "(string \<Rightarrow> nat + dataframe) \<Rightarrow> string list \<Rightarrow> nat + dataframe list" where
  "load_all load_file [] = Inr []"
| "load_all load_file (file_path # paths) =
     (case load_file file_path of
        Inl code \<Rightarrow> Inl code
      | Inr df \<Rightarrow>
          if rows df = [] \<or> columns df = [] then Inl 1
          else (case load_all load_file paths of
                  Inl code \<Rightarrow> Inl code
                | Inr df_list \<Rightarrow> Inr (df # df_list)))"

fun extract_data :: "(string \<Rightarrow> nat + dataframe) \<Rightarrow> (string \<times> string list) list
    \<Rightarrow> nat + (string \<times> dataframe list) list" where
  "extract_data load_file [] = Inr []"
| "extract_data load_file ((table_name, paths) # rest) =
     (case load_all load_file paths of
        Inl code \<Rightarrow> Inl code
      | Inr df_list \<Rightarrow>
          (case extract_data load_file rest of
             Inl code \<Rightarrow> Inl code
           | Inr data \<Rightarrow> Inr ((table_name, df_list) # data)))"

text \<open>
  \<^verbatim>\<open>main\<close> without the test flag, from \<^verbatim>\<open>parse_file_paths\<close> on; \<open>st\<close> is the database
  that \<^verbatim>\<open>create_database\<close> has made from the schema.
\<close>

definition main :: "env \<Rightarrow> (string \<Rightarrow> bool) \<Rightarrow> (string \<Rightarrow> nat + dataframe) \<Rightarrow> string
    \<Rightarrow> db_state \<Rightarrow> status \<times> db_state" where
  "main ev path_exists load_file data_path st =
     (case parse_file_paths path_exists data_path of
        Inl code \<Rightarrow> (SystemExit code, st)
      | Inr data_files \<Rightarrow>
          (case extract_data load_file data_files of
             Inl code \<Rightarrow> (SystemExit code, st)
           | Inr data \<Rightarrow>
               if data \<noteq> [] then
                 (case import_data_to_DB ev data st of
                    (Done, st') \<Rightarrow> (SystemExit 0, st')
                  | other \<Rightarrow> other)
               else (SystemExit 0, st)))"

subsection \<open>The order of the load phase\<close>

text \<open>
  The table names in the order in which \<^verbatim>\<open>main\<close> hands them to \<^verbatim>\<open>import_data_to_DB\<close>,
  whose loop imports them from the first to the last; \<open>None\<close> when the run exits before
  the load phase.
\<close>

definition load_order :: "(string \<Rightarrow> bool) \<Rightarrow> (string \<Rightarrow> nat + dataframe) \<Rightarrow> string
    \<Rightarrow> string list option" where
  "load_order path_exists load_file data_path =
     (case parse_file_paths path_exists data_path of
        Inl code \<Rightarrow> None
      | Inr data_files \<Rightarrow>
          (case extract_data load_file data_files of
             Inl code \<Rightarrow> None
           | Inr data \<Rightarrow> Some (map fst data)))"

text \<open>Table \<open>a\<close> is imported, and table \<open>b\<close> is imported later.\<close>

definition imported_before :: "string \<Rightarrow> string \<Rightarrow> string list \<Rightarrow> bool" where
  "imported_before a b order =
     (case dropWhile (\<lambda>t. t \<noteq> a) order of
        [] \<Rightarrow> False
      | first # later \<Rightarrow> b \<in> set later)"

text \<open>The names \<^verbatim>\<open>import_table_data\<close> knows.\<close>

definition table_names :: "string list" where
  "table_names = [''document_dictionary'', ''chemical_dictionary'', ''list_presence_dictionary'',
     ''PUC_dictionary'', ''functional_use_dictionary'', ''DSSTox'', ''QSUR_data'',
     ''functional_use_data'', ''product_composition_data'', ''list_presence_data'',
     ''HHE_data'']"

section \<open>Properties of null normalization\<close>

lemma replace_columns: "columns (replace_empty_na_with_null df) = columns df"
  by (simp add: replace_empty_na_with_null_def df_replace_def)

lemma replace_idem:
  "replace_empty_na_with_null (replace_empty_na_with_null df) = replace_empty_na_with_null df"
  by (simp add: replace_empty_na_with_null_def df_replace_def)

text \<open>
  C7. Null normalization keeps the shape of the record set; the cell at every position
  becomes null when it is the empty string or the literal NA, and is unchanged
  otherwise; normalizing twice equals normalizing once.
\<close>

theorem null_normalization_cells:
  "columns (replace_empty_na_with_null df) = columns df
   \<and> length (rows (replace_empty_na_with_null df)) = length (rows df)
   \<and> (\<forall>i < length (rows df).
        length (rows (replace_empty_na_with_null df) ! i) = length (rows df ! i)
        \<and> (\<forall>j < length (rows df ! i).
              rows (replace_empty_na_with_null df) ! i ! j =
                (if rows df ! i ! j = Str '''' \<or> rows df ! i ! j = Str ''NA''
                 then PyNone else rows df ! i ! j)))
   \<and> replace_empty_na_with_null (replace_empty_na_with_null df)
       = replace_empty_na_with_null df"
  by (simp add: replace_empty_na_with_null_def df_replace_def)

theorem null_normalization_cells_witness:
  "rows (replace_empty_na_with_null
      \<lparr>columns = [''a'', ''b'', ''c''],
       rows = [[Str '''', Str ''NA'', Str ''x''], [Str ''na'', PyNone, Num (Finite 3)]]\<rparr>)
    = [[PyNone, PyNone, Str ''x''], [Str ''na'', PyNone, Num (Finite 3)]]"
  using null_normalization_cells
    [of "\<lparr>columns = [''a'', ''b'', ''c''],
       rows = [[Str '''', Str ''NA'', Str ''x''], [Str ''na'', PyNone, Num (Finite 3)]]\<rparr>"]
  by (simp add: replace_empty_na_with_null_def df_replace_def)

section \<open>Properties of identifier explosion\<close>

lemma split_on_ne: "split_on c s \<noteq> []"
  by (induction s) (auto split: list.splits)



lemma index_of_Some: "index_of x ys = Some j \<Longrightarrow> j < length ys \<and> ys ! j = x"
  by (induction ys arbitrary: j) (auto split: if_splits)

lemma apply_cells_Inr:
  "apply_cells f cs = Inr cs' \<Longrightarrow> length cs' = length cs \<and> (\<forall>i < length cs. f (cs ! i) = Inr (cs' ! i))"
proof (induction cs arbitrary: cs')
  case Nil
  then show ?case by simp
next
  case (Cons c cs)
  then show ?case
    by (auto split: sum.splits simp: nth_Cons split: nat.splits)
qed





lemma rectangular_nth:
  "rectangular df \<Longrightarrow> i < length (rows df) \<Longrightarrow> length (rows df ! i) = length (columns df)"
  by (simp add: rectangular_def list_all_length)


lemma apply_column_frame:
  assumes "apply_column label f df = Inr df'"
  shows "columns df' = columns df \<and> length (rows df') = length (rows df)
    \<and> (\<forall>i < length (rows df). length (rows df' ! i) = length (rows df ! i)
          \<and> (\<forall>k < length (columns df). columns df ! k \<noteq> label
                \<longrightarrow> rows df' ! i ! k = rows df ! i ! k))"
proof -
  from assms obtain j cs where j: "index_of label (columns df) = Some j"
    and cs: "apply_cells f (map (\<lambda>r. r ! j) (rows df)) = Inr cs"
    and df': "df' = df\<lparr>rows := map (\<lambda>(r, c). r[j := c]) (zip (rows df) cs)\<rparr>"
    by (auto simp: apply_column_def split: option.splits sum.splits)
  from apply_cells_Inr [OF cs] have len: "length cs = length (rows df)" by simp
  from index_of_Some [OF j] have lab: "columns df ! j = label" by simp
  have "rows df' ! i ! k = rows df ! i ! k"
    if "i < length (rows df)" "columns df ! k \<noteq> label" for i k
  proof -
    from that lab have "k \<noteq> j" by auto
    with that len show ?thesis by (simp add: df')
  qed
  moreover have "length (rows df' ! i) = length (rows df ! i)" if "i < length (rows df)" for i
    using that len by (simp add: df')
  ultimately show ?thesis using len by (simp add: df')
qed

text \<open>
  C9. When identifier explosion returns, the updated record set has the columns, the
  number of rows and the row lengths of its input, and at every row every cell outside
  the IDENTIFIER column is the input's cell at the same position.
\<close>

theorem explode_identifiers_frame:
  assumes "explode_identifiers df = Inr (df', xr)"
  shows "columns df' = columns df \<and> length (rows df') = length (rows df)
    \<and> (\<forall>i < length (rows df). length (rows df' ! i) = length (rows df ! i)
          \<and> (\<forall>k < length (columns df). columns df ! k \<noteq> ''IDENTIFIER''
                \<longrightarrow> rows df' ! i ! k = rows df ! i ! k))"
proof -
  from assms have "apply_column ''IDENTIFIER'' primary_identifier df = Inr df'"
    by (auto simp: explode_identifiers_def split: option.splits sum.splits)
  then show ?thesis by (rule apply_column_frame)
qed



theorem explode_identifiers_frame_witness:
  "explode_identifiers
     \<lparr>columns = [''DTXSID'', ''IDENTIFIER'', ''CASRN''],
      rows = [[Str ''DTXSID7020637'', Str '' 50-00-0 | CAS-ALT-1'', Str ''50-00-0''],
              [Str ''DTXSID2021315'', Str ''64-17-5'', PyNone]]\<rparr>
   = Inr (\<lparr>columns = [''DTXSID'', ''IDENTIFIER'', ''CASRN''],
           rows = [[Str ''DTXSID7020637'', Str ''50-00-0'', Str ''50-00-0''],
                   [Str ''DTXSID2021315'', Str ''64-17-5'', PyNone]]\<rparr>,
          \<lparr>columns = [''IDENTIFIER'', ''CASRN'', ''ALTERNATIVE_IDENTIFIER''],
           rows = [[Str ''50-00-0'', Str ''50-00-0'', Str ''CAS-ALT-1'']]\<rparr>)
   \<and> length [[Str ''DTXSID7020637'', Str ''50-00-0'', Str ''50-00-0''],
              [Str ''DTXSID2021315'', Str ''64-17-5'', PyNone]] = (2::nat)"
proof -
  let ?df = "\<lparr>columns = [''DTXSID'', ''IDENTIFIER'', ''CASRN''],
      rows = [[Str ''DTXSID7020637'', Str '' 50-00-0 | CAS-ALT-1'', Str ''50-00-0''],
              [Str ''DTXSID2021315'', Str ''64-17-5'', PyNone]]\<rparr>"
  let ?df' = "\<lparr>columns = [''DTXSID'', ''IDENTIFIER'', ''CASRN''],
           rows = [[Str ''DTXSID7020637'', Str ''50-00-0'', Str ''50-00-0''],
                   [Str ''DTXSID2021315'', Str ''64-17-5'', PyNone]]\<rparr>"
  let ?xr = "\<lparr>columns = [''IDENTIFIER'', ''CASRN'', ''ALTERNATIVE_IDENTIFIER''],
           rows = [[Str ''50-00-0'', Str ''50-00-0'', Str ''CAS-ALT-1'']]\<rparr>"
  have h: "explode_identifiers ?df = Inr (?df', ?xr)"
    by code_simp
  from explode_identifiers_frame [OF h] have "length (rows ?df') = length (rows ?df)"
    by blast
  with h show ?thesis by simp
qed

lemma identifier_rows_of_Inr: "\<exists>new. identifier_rows_of c = Inr new"
  using split_on_ne [of "CHR ''|''"]
  by (cases c) (auto simp: Let_def split: list.splits)

lemma collect_identifier_rows_Inr: "\<exists>found. collect_identifier_rows cs = Inr found"
proof (induction cs)
  case Nil
  then show ?case by simp
next
  case (Cons c cs)
  from identifier_rows_of_Inr obtain new where "identifier_rows_of c = Inr new" by blast
  with Cons show ?case by auto
qed

lemma primary_identifier_error: "primary_identifier c = Inl e \<Longrightarrow> e = AttributeError"
  using split_on_ne [of "CHR ''|''"]
  by (cases c) (auto split: list.splits)

lemma apply_cells_primary_error:
  "\<exists>c \<in> set cs. \<forall>s. c \<noteq> Str s \<Longrightarrow> apply_cells primary_identifier cs = Inl AttributeError"
proof (induction cs)
  case Nil
  then show ?case by simp
next
  case (Cons c cs)
  show ?case
  proof (cases "primary_identifier c")
    case (Inl e)
    with primary_identifier_error [OF Inl] show ?thesis by simp
  next
    case (Inr c')
    then have "\<exists>s. c = Str s" by (cases c) simp_all
    with Cons.prems have "\<exists>c \<in> set cs. \<forall>s. c \<noteq> Str s" by auto
    with Cons.IH Inr show ?thesis by simp
  qed
qed

text \<open>
  Whenever some IDENTIFIER cell is not a string, the explosion raises AttributeError:
  the first loop never raises, and line 65 does at the first such cell.
\<close>

lemma explode_identifiers_non_string:
  assumes "index_of ''IDENTIFIER'' (columns df) = Some j"
    and "\<exists>r \<in> set (rows df). \<forall>s. r ! j \<noteq> Str s"
  shows "explode_identifiers df = Inl AttributeError"
proof -
  from collect_identifier_rows_Inr obtain found where
    f: "collect_identifier_rows (map (\<lambda>r. r ! j) (rows df)) = Inr found" by blast
  from assms(2) have "\<exists>c \<in> set (map (\<lambda>r. r ! j) (rows df)). \<forall>s. c \<noteq> Str s" by auto
  then have "apply_cells primary_identifier (map (\<lambda>r. r ! j) (rows df)) = Inl AttributeError"
    by (rule apply_cells_primary_error)
  with assms(1) f show ?thesis
    by (simp add: explode_identifiers_def apply_column_def)
qed

text \<open>
  C3. A record set with a null IDENTIFIER cell (\<^verbatim>\<open>None\<close> or NaN): the loop of lines 58
  to 62 passes it through \<^verbatim>\<open>str\<close> and adds no cross-reference row, but line 65 calls
  \<^verbatim>\<open>split\<close> on the cell itself and raises AttributeError.
\<close>

theorem explode_identifiers_null_raises:
  "explode_identifiers
     \<lparr>columns = [''DTXSID'', ''IDENTIFIER''],
      rows = [[Str ''DTXSID7020637'', PyNone]]\<rparr> = Inl AttributeError
   \<and> explode_identifiers
     \<lparr>columns = [''DTXSID'', ''IDENTIFIER''],
      rows = [[Str ''DTXSID7020637'', Str ''50-00-0|CAS-ALT-1''],
              [Str ''DTXSID2021315'', Num NaN]]\<rparr> = Inl AttributeError"
  by code_simp

section \<open>Properties of percentage-aware parsing\<close>

lemma py_float_error: "py_float s = Inl e \<Longrightarrow> e = ValueError"
  by (auto simp: py_float_def split: prod.splits if_splits option.splits list.splits)

lemma to_float_try_error: "to_float_try v = Inl e \<Longrightarrow> e = ValueError"
  by (auto simp: to_float_try_def Let_def split: if_splits cell.splits sum.splits
      dest: py_float_error)

lemma to_float_returns: "\<exists>r. to_float v = Inr r"
  by (auto simp: to_float_def split: sum.splits dest: to_float_try_error)

text \<open>
  C5. \<^verbatim>\<open>to_float\<close> maps a null (\<^verbatim>\<open>None\<close> or NaN) to null; a string whose trimmed text
  holds a percent sign to the number read from that text without its percent signs,
  divided by 100; any other string to the number read from its trimmed text; a string
  that \<^verbatim>\<open>float\<close> rejects to null. It never raises. The three examples of the claim.
\<close>

theorem to_float_cases:
  "to_float PyNone = Inr PyNone
   \<and> to_float (Num NaN) = Inr PyNone
   \<and> (\<forall>s. CHR ''%'' \<in> set (strip s) \<longrightarrow>
         to_float (Str s) =
           Inr (case py_float (filter (\<lambda>c. c \<noteq> CHR ''%'') (strip s)) of
                  Inl e \<Rightarrow> PyNone
                | Inr x \<Rightarrow> Num (divide_100 x)))
   \<and> (\<forall>s. CHR ''%'' \<notin> set (strip s) \<longrightarrow>
         to_float (Str s) =
           Inr (case py_float (strip s) of Inl e \<Rightarrow> PyNone | Inr x \<Rightarrow> Num x))
   \<and> (\<forall>v. \<exists>r. to_float v = Inr r)
   \<and> to_float (Str ''45%'') = Inr (Num (Finite 0.45))
   \<and> to_float (Str ''0.45'') = Inr (Num (Finite 0.45))
   \<and> to_float (Str ''abc'') = Inr PyNone"
proof -
  have null: "to_float PyNone = Inr PyNone" "to_float (Num NaN) = Inr PyNone"
    by (simp_all add: to_float_def to_float_try_def)
  have pct: "to_float (Str s) =
           Inr (case py_float (filter (\<lambda>c. c \<noteq> CHR ''%'') (strip s)) of
                  Inl e \<Rightarrow> PyNone
                | Inr x \<Rightarrow> Num (divide_100 x))" if "CHR ''%'' \<in> set (strip s)" for s
    using that
    by (auto simp: to_float_def to_float_try_def split: sum.splits dest: py_float_error)
  have plain: "to_float (Str s) =
           Inr (case py_float (strip s) of Inl e \<Rightarrow> PyNone | Inr x \<Rightarrow> Num x)"
    if "CHR ''%'' \<notin> set (strip s)" for s
    using that
    by (auto simp: to_float_def to_float_try_def split: sum.splits dest: py_float_error)
  have ex1: "to_float (Str ''45%'') = Inr (Num (Finite 0.45))" by code_simp
  have ex2: "to_float (Str ''0.45'') = Inr (Num (Finite 0.45))" by code_simp
  have ex3: "to_float (Str ''abc'') = Inr PyNone" by code_simp
  show ?thesis
    using null pct plain to_float_returns ex1 ex2 ex3 by blast
qed

theorem to_float_cases_witness:
  "to_float (Str '' 12.5 % '') = Inr (Num (Finite 0.125))
   \<and> to_float (Str ''1e-2'') = Inr (Num (Finite 0.01))
   \<and> to_float (Str ''12 percent'') = Inr PyNone"
proof -
  have a: "CHR ''%'' \<in> set (strip '' 12.5 % '')" by code_simp
  have b: "CHR ''%'' \<notin> set (strip ''1e-2'')" by code_simp
  have c: "CHR ''%'' \<notin> set (strip ''12 percent'')" by code_simp
  have a': "(case py_float (filter (\<lambda>c. c \<noteq> CHR ''%'') (strip '' 12.5 % '')) of
                  Inl e \<Rightarrow> PyNone
                | Inr x \<Rightarrow> Num (divide_100 x)) = Num (Finite 0.125)" by code_simp
  have b': "(case py_float (strip ''1e-2'') of Inl e \<Rightarrow> PyNone | Inr x \<Rightarrow> Num x)
     = Num (Finite 0.01)" by code_simp
  have c': "(case py_float (strip ''12 percent'') of Inl e \<Rightarrow> PyNone | Inr x \<Rightarrow> Num x)
     = PyNone" by code_simp
  from to_float_cases a a' have 1: "to_float (Str '' 12.5 % '') = Inr (Num (Finite 0.125))"
    by metis
  from to_float_cases b b' have 2: "to_float (Str ''1e-2'') = Inr (Num (Finite 0.01))"
    by metis
  from to_float_cases c c' have 3: "to_float (Str ''12 percent'') = Inr PyNone"
    by metis
  from 1 2 3 show ?thesis by blast
qed

section \<open>Properties of date canonicalization\<close>

lemma convert_groups_error: "convert_groups gs acc = Inl e \<Longrightarrow> e = ValueError"
proof (induction gs acc rule: convert_groups.induct)
  case (1 acc)
  then show ?case by simp
next
  case (2 key tx gs yr mo dy)
  then show ?case
    by (auto split: if_splits option.splits)
qed

lemma make_date_error: "make_date y m d = Inl e \<Longrightarrow> e = ValueError"
  by (simp add: make_date_def split: if_splits)

lemma strptime_error:
  assumes "strptime s fmt = Inl e"
  shows "e = ValueError"
proof (cases "re_match (pattern fmt) s")
  case Nil
  with assms show ?thesis by (simp add: strptime_def)
next
  case (Cons a others)
  obtain found r where a: "a = (found, r)" by (cases a)
  show ?thesis
  proof (cases "r = []")
    case False
    with assms Cons a show ?thesis by (simp add: strptime_def)
  next
    case True
    show ?thesis
    proof (cases "convert_groups found (None, 1, 1)")
      case (Inl x)
      with assms Cons a True convert_groups_error [OF Inl] show ?thesis
        by (simp add: strptime_def)
    next
      case (Inr t)
      obtain y m d where "t = (y, m, d)" by (cases t)
      with assms Cons a True Inr show ?thesis
        by (auto simp: strptime_def dest: make_date_error)
    qed
  qed
qed

lemma parse_with_error:
  "parse_with p fmt c = Inl e \<Longrightarrow> e = ValueError \<or> e = AttributeError"
  by (auto simp: parse_with_def split: cell.splits sum.splits dest: strptime_error)

lemma parse_with_not_str: "(\<forall>s. c \<noteq> Str s) \<Longrightarrow> parse_with p fmt c = Inl AttributeError"
  by (cases c) (simp_all add: parse_with_def)

lemma try_formats_returns: "\<exists>r. try_formats p fmts c = Inr r"
  by (induction fmts) (auto split: sum.splits dest: parse_with_error)

lemma try_formats_none:
  "(\<forall>fmt \<in> set fmts. \<exists>e. parse_with p fmt c = Inl e) \<Longrightarrow> try_formats p fmts c = Inr PyNone"
  by (induction fmts) (auto split: sum.splits dest: parse_with_error)

lemma try_formats_first:
  "i < length fmts \<Longrightarrow> parse_with p (fmts ! i) c = Inr out
    \<Longrightarrow> (\<forall>j < i. \<exists>e. parse_with p (fmts ! j) c = Inl e)
    \<Longrightarrow> try_formats p fmts c = Inr (Str out)"
proof (induction fmts arbitrary: i)
  case Nil
  then show ?case by simp
next
  case (Cons fmt fmts)
  show ?case
  proof (cases i)
    case 0
    with Cons.prems show ?thesis by simp
  next
    case (Suc k)
    with Cons.prems have k: "k < length fmts" "parse_with p (fmts ! k) c = Inr out"
      by simp_all
    from Cons.prems Suc have "\<forall>j < k. \<exists>e. parse_with p (fmts ! j) c = Inl e"
      by (metis Suc_less_eq nth_Cons_Suc)
    with k have rest: "try_formats p fmts c = Inr (Str out)"
      by (rule Cons.IH)
    from Cons.prems Suc obtain e where e: "parse_with p fmt c = Inl e"
      by (metis nth_Cons_0 zero_less_Suc)
    with parse_with_error have "e = ValueError \<or> e = AttributeError" by blast
    with e rest show ?thesis by auto
  qed
qed

text \<open>
  C6. \<^verbatim>\<open>parse_date\<close> never raises. An input that is not a string (\<^verbatim>\<open>None\<close>, a number)
  and a string that no format parses give null. For a string that some format parses,
  the first such format in the order of \<^verbatim>\<open>date_formats\<close> gives the date that is
  returned.
\<close>

theorem parse_date_first_match:
  "(\<forall>c. \<exists>r. parse_date p c = Inr r)
   \<and> (\<forall>c. (\<forall>s. c \<noteq> Str s) \<longrightarrow> parse_date p c = Inr PyNone)
   \<and> (\<forall>s. (\<forall>fmt \<in> set date_formats. \<exists>e. strptime (strip s) fmt = Inl e)
          \<longrightarrow> parse_date p (Str s) = Inr PyNone)
   \<and> (\<forall>s i dt. i < length date_formats
          \<and> strptime (strip s) (date_formats ! i) = Inr dt
          \<and> (\<forall>j < i. \<exists>e. strptime (strip s) (date_formats ! j) = Inl e)
          \<longrightarrow> parse_date p (Str s) = Inr (Str (strftime p dt)))"
proof -
  have a: "\<exists>r. parse_date p c = Inr r" for c
    unfolding parse_date_def by (rule try_formats_returns)
  have b: "parse_date p c = Inr PyNone" if "\<forall>s. c \<noteq> Str s" for c
    unfolding parse_date_def using that
    by (intro try_formats_none) (simp add: parse_with_not_str)
  have c: "parse_date p (Str s) = Inr PyNone"
    if "\<forall>fmt \<in> set date_formats. \<exists>e. strptime (strip s) fmt = Inl e" for s
    unfolding parse_date_def using that
    by (intro try_formats_none) (auto simp: parse_with_def)
  have d: "parse_date p (Str s) = Inr (Str (strftime p dt))"
    if "i < length date_formats" "strptime (strip s) (date_formats ! i) = Inr dt"
      "\<forall>j < i. \<exists>e. strptime (strip s) (date_formats ! j) = Inl e" for s i dt
    unfolding parse_date_def
  proof (rule try_formats_first [OF that(1)])
    show "parse_with p (date_formats ! i) (Str s) = Inr (strftime p dt)"
      using that(2) by (simp add: parse_with_def)
    show "\<forall>j<i. \<exists>e. parse_with p (date_formats ! j) (Str s) = Inl e"
      using that(3) by (auto simp: parse_with_def)
  qed
  from a b c d show ?thesis by blast
qed

theorem parse_date_first_match_witness:
  "parse_date False (Str ''01-02-2020'') = Inr (Str ''2020-02-01'')
   \<and> parse_date True (Str ''not-a-date'') = Inr PyNone
   \<and> parse_date True (Num (Finite 2020)) = Inr PyNone"
proof -
  note first = parse_date_first_match
    [of False, THEN conjunct2, THEN conjunct2, THEN conjunct2, rule_format]
  note none = parse_date_first_match
    [of True, THEN conjunct2, THEN conjunct2, THEN conjunct1, rule_format]
  note null = parse_date_first_match
    [of True, THEN conjunct2, THEN conjunct1, rule_format]
  have t0: "strptime (strip ''01-02-2020'') (date_formats ! 0) = Inl ValueError"
    by code_simp
  have t1: "strptime (strip ''01-02-2020'') (date_formats ! 1)
      = Inr \<lparr>year = 2020, month = 2, day = 1\<rparr>"
    by code_simp
  have t2: "strftime False \<lparr>year = 2020, month = 2, day = 1\<rparr> = ''2020-02-01''"
    by code_simp
  have len: "1 < length date_formats"
    by (simp add: date_formats_def)
  have before: "\<forall>j < 1. \<exists>e. strptime (strip ''01-02-2020'') (date_formats ! j) = Inl e"
    using t0 by simp
  have 1: "parse_date False (Str ''01-02-2020'') = Inr (Str ''2020-02-01'')"
    using first [OF conjI [OF len conjI [OF t1 before]]] t2 by simp
  have "list_all (\<lambda>fmt. isl (strptime (strip ''not-a-date'') fmt)) date_formats"
    by code_simp
  then have "\<forall>fmt \<in> set date_formats. \<exists>e. strptime (strip ''not-a-date'') fmt = Inl e"
    by (simp add: list_all_iff isl_def)
  then have 2: "parse_date True (Str ''not-a-date'') = Inr PyNone"
    by (intro none) simp
  have 3: "parse_date True (Num (Finite 2020)) = Inr PyNone"
    by (rule null) simp
  from 1 2 3 show ?thesis by simp
qed

subsection \<open>The form of the result\<close>

lemma is_digit_char_of: "d < 10 \<Longrightarrow> is_digit (char_of (48 + (d::nat)))"
  by (simp add: is_digit_def Let_def)

lemma str_nat_digits: "list_all is_digit (str_nat n)"
proof (induction n rule: str_nat.induct)
  case (1 n)
  show ?case
  proof (cases "n < 10")
    case True
    then show ?thesis by (subst str_nat.simps) (simp add: is_digit_char_of)
  next
    case False
    with 1 show ?thesis
      by (subst str_nat.simps) (simp add: is_digit_char_of)
  qed
qed

lemma str_nat_length_le: "0 < k \<Longrightarrow> n < 10 ^ k \<Longrightarrow> length (str_nat n) \<le> k"
proof (induction n arbitrary: k rule: str_nat.induct)
  case (1 n)
  show ?case
  proof (cases "n < 10")
    case True
    with 1 show ?thesis by (subst str_nat.simps) simp
  next
    case False
    with "1.prems" have k: "1 < k" by (cases "k = 1") auto
    then obtain j where j: "k = Suc j" "0 < j" by (cases k) auto
    with "1.prems" have "n div 10 < 10 ^ j" by (simp add: less_mult_imp_div_less mult.commute)
    with "1.IH" False j have "length (str_nat (n div 10)) \<le> j" by simp
    with False j show ?thesis by (subst str_nat.simps) simp
  qed
qed

lemma str_nat_length_ge: "10 ^ k \<le> n \<Longrightarrow> k < length (str_nat n)"
proof (induction n arbitrary: k rule: str_nat.induct)
  case (1 n)
  show ?case
  proof (cases "n < 10")
    case True
    with "1.prems" have "(10::nat) ^ k < 10 ^ 1" by simp
    then have "k < 1" by (rule power_less_imp_less_exp [rotated]) simp
    then have "k = 0" by simp
    with True show ?thesis by (subst str_nat.simps) simp
  next
    case False
    show ?thesis
    proof (cases k)
      case 0
      then show ?thesis by (subst str_nat.simps) simp
    next
      case (Suc j)
      with "1.prems" have "10 ^ j \<le> n div 10" by (simp add: less_eq_div_iff_mult_less_eq mult.commute)
      with "1.IH" False have "j < length (str_nat (n div 10))" by simp
      with False Suc show ?thesis by (subst str_nat.simps) simp
    qed
  qed
qed

lemma str_nat_nonempty: "str_nat n \<noteq> []"
  by (subst str_nat.simps) simp

lemma zfill_length: "length s \<le> w \<Longrightarrow> length (zfill w s) = w"
  by (simp add: zfill_def)

lemma zfill_digits: "list_all is_digit s \<Longrightarrow> list_all is_digit (zfill w s)"
  by (auto simp: zfill_def is_digit_def list_all_iff Let_def)

lemma make_date_valid:
  "make_date y m d = Inr dt \<Longrightarrow>
     year dt = y \<and> month dt = m \<and> day dt = d
     \<and> 1 \<le> y \<and> y \<le> 9999 \<and> 1 \<le> m \<and> m \<le> 12 \<and> 1 \<le> d \<and> d \<le> 31"
  by (auto simp: make_date_def days_in_month_def split: if_splits)

lemma strptime_Inr:
  assumes "strptime s fmt = Inr dt"
  shows "\<exists>found others y. re_match (pattern fmt) s = (found, []) # others
     \<and> convert_groups found (None, 1, 1) = Inr (y, month dt, day dt)
     \<and> 1 \<le> year dt \<and> year dt \<le> 9999 \<and> 1 \<le> month dt \<and> month dt \<le> 12
     \<and> 1 \<le> day dt \<and> day dt \<le> 31"
proof (cases "re_match (pattern fmt) s")
  case Nil
  with assms show ?thesis by (simp add: strptime_def)
next
  case (Cons a others)
  obtain found r where a: "a = (found, r)" by (cases a)
  show ?thesis
  proof (cases "r = []")
    case False
    with assms Cons a show ?thesis by (simp add: strptime_def)
  next
    case True
    show ?thesis
    proof (cases "convert_groups found (None, 1, 1)")
      case (Inl x)
      with assms Cons a True show ?thesis by (simp add: strptime_def)
    next
      case (Inr t)
      obtain y m d where t: "t = (y, m, d)" by (cases t)
      from assms Cons a True Inr t
      have "make_date (case y of None \<Rightarrow> if m = 2 \<and> d = 29 then 1904 else 1900 | Some v \<Rightarrow> v) m d
          = Inr dt"
        by (simp add: strptime_def)
      from make_date_valid [OF this] Cons a True Inr t show ?thesis by auto
    qed
  qed
qed

lemma pattern_directives: "Directive d \<in> set (pattern fmt) \<Longrightarrow> d \<in> set fmt"
  by (induction fmt rule: pattern.induct) (auto split: if_splits list.splits piece.splits)

lemma re_match_groups:
  "(groups, r) \<in> set (re_match ps s) \<Longrightarrow> k \<in> fst ` set groups \<Longrightarrow> Directive k \<in> set ps"
proof (induction ps arbitrary: s groups)
  case Nil
  then show ?case by simp
next
  case (Cons p ps)
  from Cons.prems(1) obtain tx rest gs where
    m: "(gs, r) \<in> set (re_match ps rest)"
    and g: "groups = (case p of Directive d \<Rightarrow> (d, tx) # gs | _ \<Rightarrow> gs)"
    by auto
  show ?case
  proof (cases "k \<in> fst ` set gs")
    case True
    with Cons.IH [OF m] show ?thesis by simp
  next
    case False
    with g Cons.prems(2) show ?thesis by (cases p) auto
  qed
qed

lemma convert_groups_day:
  "convert_groups gs (y, m, d) = Inr (y', m', d') \<Longrightarrow> CHR ''d'' \<notin> fst ` set gs \<Longrightarrow> d' = d"
proof (induction gs "(y, m, d)" arbitrary: y m d rule: convert_groups.induct)
  case 1
  then show ?case by simp
next
  case (2 k tx gs y m d)
  then show ?case
    by (auto split: if_splits option.splits)
qed

lemma convert_groups_month:
  "convert_groups gs (y, m, d) = Inr (y', m', d') \<Longrightarrow>
     CHR ''m'' \<notin> fst ` set gs \<Longrightarrow> CHR ''B'' \<notin> fst ` set gs \<Longrightarrow> CHR ''b'' \<notin> fst ` set gs
     \<Longrightarrow> m' = m"
proof (induction gs "(y, m, d)" arbitrary: y m d rule: convert_groups.induct)
  case 1
  then show ?case by simp
next
  case (2 k tx gs y m d)
  then show ?case
    by (auto split: if_splits option.splits)
qed

text \<open>
  A format without a day directive gives the day 1, one without a month directive the
  month 1: the defaults of \<^verbatim>\<open>strptime\<close>.
\<close>

lemma strptime_default_day:
  assumes "strptime s fmt = Inr dt" "CHR ''d'' \<notin> set fmt"
  shows "day dt = 1"
proof -
  from strptime_Inr [OF assms(1)] obtain found others y where
    m: "re_match (pattern fmt) s = (found, []) # others"
    and c: "convert_groups found (None, 1, 1) = Inr (y, month dt, day dt)"
    by blast
  from m have "(found, []) \<in> set (re_match (pattern fmt) s)" by simp
  with assms(2) have "CHR ''d'' \<notin> fst ` set found"
    using re_match_groups pattern_directives by blast
  with c show ?thesis by (rule convert_groups_day)
qed

lemma strptime_default_month:
  assumes "strptime s fmt = Inr dt"
    "CHR ''m'' \<notin> set fmt" "CHR ''B'' \<notin> set fmt" "CHR ''b'' \<notin> set fmt"
  shows "month dt = 1"
proof -
  from strptime_Inr [OF assms(1)] obtain found others y where
    m: "re_match (pattern fmt) s = (found, []) # others"
    and c: "convert_groups found (None, 1, 1) = Inr (y, month dt, day dt)"
    by blast
  from m have in_m: "(found, []) \<in> set (re_match (pattern fmt) s)" by simp
  have "CHR ''m'' \<notin> fst ` set found" "CHR ''B'' \<notin> fst ` set found"
    "CHR ''b'' \<notin> fst ` set found"
    using in_m assms(2-4) re_match_groups pattern_directives by blast+
  with c show ?thesis by (rule convert_groups_month)
qed

lemma try_formats_Str:
  "try_formats p fmts c = Inr (Str out) \<Longrightarrow>
     \<exists>fmt s dt. fmt \<in> set fmts \<and> c = Str s \<and> strptime (strip s) fmt = Inr dt
       \<and> out = strftime p dt"
proof (induction fmts)
  case Nil
  then show ?case by simp
next
  case (Cons fmt fmts)
  show ?case
  proof (cases "parse_with p fmt c")
    case (Inl e)
    with Cons show ?thesis by (auto split: if_splits)
  next
    case (Inr newDate)
    with Cons.prems have "newDate = out" by simp
    with Inr show ?thesis
      by (auto simp: parse_with_def split: cell.splits sum.splits)
  qed
qed

text \<open>
  Every date \<^verbatim>\<open>parse_date\<close> returns has a year, a month and a day, separated by
  hyphens; month and day have two digits; the year has four digits when the platform
  zero-fills it or when it is 1000 or later, and between one and four digits otherwise.
\<close>

lemma parse_date_shape:
  assumes "parse_date p c = Inr (Str out)"
  shows "\<exists>s fmt dt y m d. c = Str s \<and> fmt \<in> set date_formats
     \<and> strptime (strip s) fmt = Inr dt
     \<and> out = y @ ''-'' @ m @ ''-'' @ d
     \<and> list_all is_digit y \<and> list_all is_digit m \<and> list_all is_digit d
     \<and> length m = 2 \<and> length d = 2 \<and> 1 \<le> length y \<and> length y \<le> 4
     \<and> (p \<or> 1000 \<le> year dt \<longrightarrow> length y = 4)"
proof -
  from assms obtain fmt s dt where f: "fmt \<in> set date_formats" and c: "c = Str s"
    and sp: "strptime (strip s) fmt = Inr dt" and out: "out = strftime p dt"
    unfolding parse_date_def by (blast dest: try_formats_Str)
  from strptime_Inr [OF sp] have v: "1 \<le> year dt" "year dt \<le> 9999" "month dt \<le> 12"
    "day dt \<le> 31"
    by auto
  define y where "y = (if p then zfill 4 (str_nat (year dt)) else str_nat (year dt))"
  define m where "m = zfill 2 (str_nat (month dt))"
  define d where "d = zfill 2 (str_nat (day dt))"
  have ly: "length (str_nat (year dt)) \<le> 4"
    using v by (intro str_nat_length_le) simp_all
  have lm: "length (str_nat (month dt)) \<le> 2"
    using v by (intro str_nat_length_le) simp_all
  have ld: "length (str_nat (day dt)) \<le> 2"
    using v by (intro str_nat_length_le) simp_all
  have big: "length (str_nat (year dt)) = 4" if "1000 \<le> year dt"
  proof -
    from that have "10 ^ 3 \<le> year dt" by simp
    from str_nat_length_ge [OF this] ly show ?thesis by simp
  qed
  have ne: "1 \<le> length (str_nat (year dt))"
    using str_nat_nonempty [of "year dt"] by (cases "str_nat (year dt)") simp_all
  have 1: "out = y @ ''-'' @ m @ ''-'' @ d"
    by (simp add: out strftime_def y_def m_def d_def)
  have 2: "list_all is_digit y" "list_all is_digit m" "list_all is_digit d"
    by (simp_all add: y_def m_def d_def zfill_digits str_nat_digits)
  have 3: "length m = 2" "length d = 2"
    using lm ld by (simp_all add: m_def d_def zfill_length)
  have 4: "1 \<le> length y" "length y \<le> 4"
    using ly ne by (simp_all add: y_def zfill_length)
  have 5: "p \<or> 1000 \<le> year dt \<longrightarrow> length y = 4"
    using ly big by (auto simp: y_def zfill_length)
  from c f sp 1 2 3 4 5 show ?thesis by blast
qed

text \<open>
  C10. A bare year and a month with a year get the month and the day 01, whatever the
  platform. The year itself is written by the platform's \<^verbatim>\<open>strftime\<close>: where it does
  not zero-fill, the input \<^verbatim>\<open>0999\<close> gives \<^verbatim>\<open>999-01-01\<close>, which is not of the form
  YYYY-MM-DD that the docstring of \<^verbatim>\<open>parse_date\<close> promises.
\<close>

theorem parse_date_year_digits:
  "parse_date False (Str ''2020'') = Inr (Str ''2020-01-01'')
   \<and> parse_date True (Str ''2020'') = Inr (Str ''2020-01-01'')
   \<and> parse_date False (Str ''January 2020'') = Inr (Str ''2020-01-01'')
   \<and> parse_date True (Str ''January 2020'') = Inr (Str ''2020-01-01'')
   \<and> parse_date False (Str ''0999'') = Inr (Str ''999-01-01'')
   \<and> parse_date True (Str ''0999'') = Inr (Str ''0999-01-01'')"
  by code_simp

section \<open>Properties of the orchestrator\<close>

subsection \<open>Normalization and transforms\<close>

lemma import_df_list_normalized:
  "import_df_list ev t (map replace_empty_na_with_null dfs) st = import_df_list ev t dfs st"
  by (induction dfs arbitrary: st) (auto simp: replace_idem split: prod.splits status.splits)

lemma import_tables_normalized:
  "import_tables ev (map (\<lambda>(t, dfs). (t, map replace_empty_na_with_null dfs)) data) st
     = import_tables ev data st"
  by (induction data arbitrary: st)
    (auto simp: import_df_list_normalized split: prod.splits status.splits)

text \<open>
  C2. Null normalization comes first: \<^verbatim>\<open>import_data_to_DB\<close> normalizes each record set
  and then calls the import with its transforms, so a run on the record sets and a run
  on their normalized forms are the same run.
\<close>

theorem null_normalization_before_transforms:
  "import_data_to_DB ev (map (\<lambda>(t, dfs). (t, map replace_empty_na_with_null dfs)) data) st
     = import_data_to_DB ev data st"
  by (simp add: import_data_to_DB_def import_tables_normalized)

text \<open>
  Against C2 as the specification words it: normalization is not the last step before
  the insertion, and the transforms do not see the raw strings. The identifier \<^verbatim>\<open>NA|50-00-0\<close> is not changed by the
  normalization; the explosion then leaves the primary token \<^verbatim>\<open>NA\<close>, which is stored
  as a string. The identifier \<^verbatim>\<open>NA\<close>, which the explosion alone would keep, reaches it
  as a null and makes it raise.
\<close>

theorem null_normalization_not_last:
  "import_data_to_DB \<lparr>year_padded = True, accepts = (\<lambda>visible table row. True)\<rparr>
     [(''DSSTox'',
       [\<lparr>columns = [''DTXSID'', ''PREFERRED_NAME'', ''CASRN'', ''INCHIKEY'', ''IUPAC_NAME'',
           ''SMILES'', ''MOLECULAR_FORMULA'', ''AVERAGE_MASS'', ''MONOISOTOPIC_MASS'',
           ''QSAR_READY_SMILES'', ''MS_READY_SMILES'', ''IDENTIFIER''],
         rows = [[Str ''DTXSID7020637'', Str ''Formaldehyde'', Str ''50-00-0'', Str ''K'',
           Str ''NA'', Str ''C=O'', Str ''CH2O'', Num (Finite 30), Num (Finite 30),
           Str ''C=O'', Str '''', Str ''NA|50-00-0'']]\<rparr>])]
     \<lparr>committed = [], pending = [], printed = []\<rparr>
   = (Done,
      \<lparr>committed =
         [(''DSSTox'', [Str ''DTXSID7020637'', Str ''Formaldehyde'', Str ''50-00-0'', Str ''K'',
            PyNone, Str ''C=O'', Str ''CH2O'', Num (Finite 30), Num (Finite 30),
            Str ''C=O'', PyNone, Str ''NA'']),
          (''Identifier'', [Str ''NA'', Str ''NA'', Str ''50-00-0''])],
       pending = [], printed = [Imported ''DSSTox'']\<rparr>)
   \<and> explode_identifiers
       \<lparr>columns = [''DTXSID'', ''IDENTIFIER''], rows = [[Str ''DTXSID7020637'', Str ''NA'']]\<rparr>
     = Inr (\<lparr>columns = [''DTXSID'', ''IDENTIFIER''],
              rows = [[Str ''DTXSID7020637'', Str ''NA'']]\<rparr>,
            \<lparr>columns = [], rows = []\<rparr>)
   \<and> import_data_to_DB \<lparr>year_padded = True, accepts = (\<lambda>visible table row. True)\<rparr>
       [(''DSSTox'',
         [\<lparr>columns = [''DTXSID'', ''IDENTIFIER''],
           rows = [[Str ''DTXSID7020637'', Str ''NA'']]\<rparr>])]
       \<lparr>committed = [], pending = [], printed = []\<rparr>
     = (Done, \<lparr>committed = [], pending = [],
               printed = [ErrorImporting ''DSSTox'' AttributeError]\<rparr>)"
  by code_simp

subsection \<open>The order of the load phase\<close>

lemma dict_append_keys:
  "map fst (dict_append k p d) = (if k \<in> set (map fst d) then map fst d else map fst d @ [k])"
  by (induction d) (auto simp: dict_append_def)

lemma foldl_dict_append_keys:
  "map fst (foldl (\<lambda>d i. dict_append k (f i) d) d0 xs)
     = (if xs = [] \<or> k \<in> set (map fst d0) then map fst d0 else map fst d0 @ [k])"
proof (induction xs arbitrary: d0)
  case Nil
  then show ?case by simp
next
  case (Cons x xs)
  show ?case
    by (simp add: Cons.IH dict_append_keys)
qed

lemma verify_tables_keys: "verify_tables pe d = Inr d' \<Longrightarrow> map fst d' = map fst d"
  by (induction d arbitrary: d') (auto simp: Let_def split: if_splits sum.splits)

lemma extract_data_keys: "extract_data lf d = Inr data \<Longrightarrow> map fst data = map fst d"
  by (induction d arbitrary: data) (auto split: sum.splits)

lemma parse_file_paths_keys:
  assumes "parse_file_paths pe dir = Inr fps"
  shows "map fst fps = [''DSSTox'', ''document_dictionary'', ''chemical_dictionary'',
    ''list_presence_data'', ''PUC_dictionary'', ''functional_use_dictionary'', ''QSUR_data'',
    ''functional_use_data'', ''product_composition_data'', ''list_presence_dictionary'',
    ''HHE_data'']"
proof -
  have "[1 ..< 14] \<noteq> ([] :: nat list)" by simp
  then have "map fst (foldl (\<lambda>d i. dict_append ''DSSTox''
                         (dir @ ''/DSSToxDump'' @ str_nat i @ ''.xlsx'') d)
              [] [1 ..< 14]) = [''DSSTox'']"
    by (subst foldl_dict_append_keys) simp
  then show ?thesis
    using verify_tables_keys [OF assms [unfolded parse_file_paths_def]]
    by (simp add: dict_append_keys)
qed

lemma load_order_Some:
  "load_order pe lf dir = Some order \<Longrightarrow>
   order = [''DSSTox'', ''document_dictionary'', ''chemical_dictionary'',
    ''list_presence_data'', ''PUC_dictionary'', ''functional_use_dictionary'', ''QSUR_data'',
    ''functional_use_data'', ''product_composition_data'', ''list_presence_dictionary'',
    ''HHE_data'']"
  by (auto simp: load_order_def split: sum.splits dest!: extract_data_keys parse_file_paths_keys)

text \<open>
  C1. Whenever a run reaches the load phase, the tables are imported in one fixed order,
  each once: the DSSTox table first, before every dictionary; the document and chemical
  dictionaries before every fact table; the PUC and functional-use dictionaries before
  the QSUR, functional-use, product-composition and HHE data.
\<close>

theorem load_order_fixed:
  assumes "load_order path_exists load_file data_path = Some order"
  shows "hd order = ''DSSTox'' \<and> distinct order \<and> length order = 11
    \<and> list_all (\<lambda>t. t \<in> set table_names) order
    \<and> list_all (\<lambda>later. imported_before ''DSSTox'' later order)
         [''document_dictionary'', ''chemical_dictionary'', ''list_presence_dictionary'',
          ''PUC_dictionary'', ''functional_use_dictionary'']
    \<and> list_all (\<lambda>d. list_all (\<lambda>f. imported_before d f order)
           [''QSUR_data'', ''functional_use_data'', ''product_composition_data'',
            ''list_presence_data'', ''HHE_data''])
         [''document_dictionary'', ''chemical_dictionary'']
    \<and> list_all (\<lambda>d. list_all (\<lambda>f. imported_before d f order)
           [''QSUR_data'', ''functional_use_data'', ''product_composition_data'', ''HHE_data''])
         [''PUC_dictionary'', ''functional_use_dictionary'']"
  unfolding load_order_Some [OF assms]
  by (simp add: imported_before_def table_names_def) 

theorem load_order_fixed_witness:
  "load_order (\<lambda>file_path. True)
     (\<lambda>file_path. Inr \<lparr>columns = [''document_id'', ''chemical_id''],
                       rows = [[Num (Finite 1), Num (Finite 2)]]\<rparr>) ''data''
   = Some [''DSSTox'', ''document_dictionary'', ''chemical_dictionary'',
    ''list_presence_data'', ''PUC_dictionary'', ''functional_use_dictionary'', ''QSUR_data'',
    ''functional_use_data'', ''product_composition_data'', ''list_presence_dictionary'',
    ''HHE_data'']
   \<and> hd [''DSSTox'', ''document_dictionary'', ''chemical_dictionary'',
    ''list_presence_data'', ''PUC_dictionary'', ''functional_use_dictionary'', ''QSUR_data'',
    ''functional_use_data'', ''product_composition_data'', ''list_presence_dictionary'',
    ''HHE_data''] = ''DSSTox''"
proof -
  have h: "load_order (\<lambda>file_path. True)
     (\<lambda>file_path. Inr \<lparr>columns = [''document_id'', ''chemical_id''],
                       rows = [[Num (Finite 1), Num (Finite 2)]]\<rparr>) ''data''
   = Some [''DSSTox'', ''document_dictionary'', ''chemical_dictionary'',
    ''list_presence_data'', ''PUC_dictionary'', ''functional_use_dictionary'', ''QSUR_data'',
    ''functional_use_data'', ''product_composition_data'', ''list_presence_dictionary'',
    ''HHE_data'']"
    by code_simp
  from load_order_fixed [OF h] h show ?thesis by simp
qed

text \<open>
  Against C1 as the specification words it: with every file present, the load phase
  imports the DSSTox table before the dictionaries and the list-presence data before the
  list-presence dictionary.
\<close>

theorem load_order_not_dependency_order:
  "load_order (\<lambda>file_path. True)
     (\<lambda>file_path. Inr \<lparr>columns = [''document_id'', ''chemical_id''],
                       rows = [[Num (Finite 1), Num (Finite 2)]]\<rparr>) ''data''
   = Some [''DSSTox'', ''document_dictionary'', ''chemical_dictionary'',
    ''list_presence_data'', ''PUC_dictionary'', ''functional_use_dictionary'', ''QSUR_data'',
    ''functional_use_data'', ''product_composition_data'', ''list_presence_dictionary'',
    ''HHE_data'']
   \<and> \<not> imported_before ''list_presence_dictionary'' ''list_presence_data''
        [''DSSTox'', ''document_dictionary'', ''chemical_dictionary'',
    ''list_presence_data'', ''PUC_dictionary'', ''functional_use_dictionary'', ''QSUR_data'',
    ''functional_use_data'', ''product_composition_data'', ''list_presence_dictionary'',
    ''HHE_data'']
   \<and> \<not> imported_before ''document_dictionary'' ''DSSTox''
        [''DSSTox'', ''document_dictionary'', ''chemical_dictionary'',
    ''list_presence_data'', ''PUC_dictionary'', ''functional_use_dictionary'', ''QSUR_data'',
    ''functional_use_data'', ''product_composition_data'', ''list_presence_dictionary'',
    ''HHE_data'']"
  by code_simp

subsection \<open>Failures of one table\<close>

lemma execute_committed:
  "execute ev t n r st = (s, st') \<Longrightarrow>
     committed st' = committed st \<and> printed st' = printed st \<and> (\<forall>code. s \<noteq> SystemExit code)"
  by (auto simp: execute_def split: if_splits)

lemma insert_rows_committed:
  "insert_rows ev t n rs st = (s, st') \<Longrightarrow>
     committed st' = committed st \<and> printed st' = printed st \<and> (\<forall>code. s \<noteq> SystemExit code)"
proof (induction rs arbitrary: st)
  case Nil
  then show ?case by auto
next
  case (Cons r rs)
  obtain s1 st1 where e: "execute ev t n r st = (s1, st1)" by (cases "execute ev t n r st")
  note e1 = execute_committed [OF e]
  show ?case
  proof (cases s1)
    case Done
    with Cons.prems e have "insert_rows ev t n rs st1 = (s, st')" by simp
    from Cons.IH [OF this] e1 show ?thesis by simp
  next
    case (Raised x)
    with Cons.prems e e1 show ?thesis by auto
  next
    case (SystemExit c)
    with e1 show ?thesis by simp
  qed
qed

lemma insert_and_commit_ok:
  "insert_and_commit ev t n df st = (s, st') \<Longrightarrow>
     prefix (committed st) (committed st') \<and> printed st' = printed st
     \<and> (\<forall>code. s \<noteq> SystemExit code)"
proof -
  assume a: "insert_and_commit ev t n df st = (s, st')"
  obtain s1 st1 where i: "insert_rows ev t n (rows df) st = (s1, st1)"
    by (cases "insert_rows ev t n (rows df) st")
  note i1 = insert_rows_committed [OF i]
  from a i i1 show ?thesis
    by (cases s1) (auto simp: insert_and_commit_def commit_def)
qed

lemma insert_identifier_rows_committed:
  "insert_identifier_rows ev cols rs st = (s, st') \<Longrightarrow>
     committed st' = committed st \<and> printed st' = printed st \<and> (\<forall>code. s \<noteq> SystemExit code)"
proof (induction rs arbitrary: st)
  case Nil
  then show ?case by auto
next
  case (Cons r rs)
  show ?case
  proof (cases "identifier_params cols r")
    case (Inl e)
    with Cons.prems show ?thesis by auto
  next
    case (Inr ps)
    obtain s1 st1 where e: "execute ev ''Identifier'' 3 ps st = (s1, st1)"
      by (cases "execute ev ''Identifier'' 3 ps st")
    note e1 = execute_committed [OF e]
    show ?thesis
    proof (cases s1)
      case Done
      with Cons.prems e Inr have "insert_identifier_rows ev cols rs st1 = (s, st')" by simp
      from Cons.IH [OF this] e1 show ?thesis by simp
    next
      case (Raised x)
      with Cons.prems e e1 Inr show ?thesis by auto
    next
      case (SystemExit c)
      with e1 show ?thesis by simp
    qed
  qed
qed

lemma Identifier_import_data_ok:
  "Identifier_import_data ev df st = (s, st') \<Longrightarrow>
     prefix (committed st) (committed st') \<and> printed st' = printed st
     \<and> (\<forall>code. s \<noteq> SystemExit code)"
proof -
  assume a: "Identifier_import_data ev df st = (s, st')"
  obtain s1 st1 where i: "insert_identifier_rows ev (columns df) (rows df) st = (s1, st1)"
    by (cases "insert_identifier_rows ev (columns df) (rows df) st")
  note i1 = insert_identifier_rows_committed [OF i]
  from a i i1 show ?thesis
    by (cases s1) (auto simp: Identifier_import_data_def commit_def)
qed

lemma DSSTox_import_data_ok:
  assumes a: "DSSTox_import_data ev df st = (s, st')"
  shows "prefix (committed st) (committed st') \<and> printed st' = printed st
     \<and> (\<forall>code. s \<noteq> SystemExit code)"
proof (cases "explode_identifiers df")
  case (Inl e)
  with a show ?thesis by (auto simp: DSSTox_import_data_def)
next
  case (Inr p)
  obtain d x where p: "p = (d, x)" by (cases p)
  obtain s1 st1 where i: "insert_rows ev ''DSSTox'' 12 (rows (where_notnull d)) st = (s1, st1)"
    by (cases "insert_rows ev ''DSSTox'' 12 (rows (where_notnull d)) st")
  note i1 = insert_rows_committed [OF i]
  show ?thesis
  proof (cases s1)
    case Done
    obtain s2 st2 where j: "Identifier_import_data ev (where_notnull x) st1 = (s2, st2)"
      by (cases "Identifier_import_data ev (where_notnull x) st1")
    note j1 = Identifier_import_data_ok [OF j]
    from a Inr p i Done j j1 i1 show ?thesis
      by (cases s2) (auto simp: DSSTox_import_data_def commit_def)
  next
    case (Raised e)
    with a Inr p i i1 show ?thesis by (auto simp: DSSTox_import_data_def)
  next
    case (SystemExit c)
    with i1 show ?thesis by simp
  qed
qed

lemma document_dictionary_import_data_ok:
  "document_dictionary_import_data ev df st = (s, st') \<Longrightarrow>
     prefix (committed st) (committed st') \<and> printed st' = printed st
     \<and> (\<forall>code. s \<noteq> SystemExit code)"
  by (auto simp: document_dictionary_import_data_def split: sum.splits
      dest: insert_and_commit_ok)

lemma product_composition_data_import_data_ok:
  "product_composition_data_import_data ev df st = (s, st') \<Longrightarrow>
     prefix (committed st) (committed st') \<and> printed st' = printed st
     \<and> (\<forall>code. s \<noteq> SystemExit code)"
  by (auto simp: product_composition_data_import_data_def split: sum.splits
      dest: insert_and_commit_ok)

lemma plain_imports_ok:
  "chemical_dictionary_import_data ev df st = (s, st') \<Longrightarrow>
     prefix (committed st) (committed st') \<and> printed st' = printed st
     \<and> (\<forall>code. s \<noteq> SystemExit code)"
  "QSUR_data_import_data ev df st = (s, st') \<Longrightarrow>
     prefix (committed st) (committed st') \<and> printed st' = printed st
     \<and> (\<forall>code. s \<noteq> SystemExit code)"
  "list_presence_dictionary_import_data ev df st = (s, st') \<Longrightarrow>
     prefix (committed st) (committed st') \<and> printed st' = printed st
     \<and> (\<forall>code. s \<noteq> SystemExit code)"
  "list_presence_data_import_data ev df st = (s, st') \<Longrightarrow>
     prefix (committed st) (committed st') \<and> printed st' = printed st
     \<and> (\<forall>code. s \<noteq> SystemExit code)"
  "HHE_data_import_data ev df st = (s, st') \<Longrightarrow>
     prefix (committed st) (committed st') \<and> printed st' = printed st
     \<and> (\<forall>code. s \<noteq> SystemExit code)"
  "functional_use_dictionary_import_data ev df st = (s, st') \<Longrightarrow>
     prefix (committed st) (committed st') \<and> printed st' = printed st
     \<and> (\<forall>code. s \<noteq> SystemExit code)"
  "functional_use_data_import_data ev df st = (s, st') \<Longrightarrow>
     prefix (committed st) (committed st') \<and> printed st' = printed st
     \<and> (\<forall>code. s \<noteq> SystemExit code)"
  "PUC_dictionary_import_data ev df st = (s, st') \<Longrightarrow>
     prefix (committed st) (committed st') \<and> printed st' = printed st
     \<and> (\<forall>code. s \<noteq> SystemExit code)"
  unfolding chemical_dictionary_import_data_def QSUR_data_import_data_def
    list_presence_dictionary_import_data_def list_presence_data_import_data_def
    HHE_data_import_data_def functional_use_dictionary_import_data_def
    functional_use_data_import_data_def PUC_dictionary_import_data_def
  by (rule insert_and_commit_ok, assumption)+

lemmas imports_ok = plain_imports_ok document_dictionary_import_data_ok
  product_composition_data_import_data_ok DSSTox_import_data_ok

lemma finish_import:
  assumes r: "(case Some strategy of
        None \<Rightarrow> (SystemExit 1, print (NotImported t) st)
      | Some (Done, st') \<Rightarrow> (Done, print (Imported t) st')
      | Some other \<Rightarrow> other) = (s, st')"
    and ok: "\<And>s1 st1. strategy = (s1, st1) \<Longrightarrow>
       prefix (committed st) (committed st1) \<and> printed st1 = printed st
       \<and> (\<forall>code. s1 \<noteq> SystemExit code)"
  shows "prefix (committed st) (committed st') \<and> (\<forall>code. s \<noteq> SystemExit code)
     \<and> printed st' = printed st @ (if s = Done then [Imported t] else [])"
proof -
  obtain s1 st1 where st: "strategy = (s1, st1)" by (cases strategy)
  from ok [OF st] r st show ?thesis
    by (cases s1) (auto simp: print_def)
qed

lemma import_table_data_known:
  assumes known: "t \<in> set table_names"
    and r: "import_table_data ev t df st = (s, st')"
  shows "prefix (committed st) (committed st') \<and> (\<forall>code. s \<noteq> SystemExit code)
     \<and> printed st' = printed st @ (if s = Done then [Imported t] else [])"
proof -
  from known have "t = ''document_dictionary'' \<or> t = ''chemical_dictionary''
    \<or> t = ''list_presence_dictionary'' \<or> t = ''PUC_dictionary''
    \<or> t = ''functional_use_dictionary'' \<or> t = ''DSSTox'' \<or> t = ''QSUR_data''
    \<or> t = ''functional_use_data'' \<or> t = ''product_composition_data''
    \<or> t = ''list_presence_data'' \<or> t = ''HHE_data''"
    unfolding table_names_def by simp
  then show ?thesis
  proof (elim disjE)
    assume t: "t = ''document_dictionary''"
    from r show ?thesis
      unfolding t
      by (intro finish_import [where strategy = "document_dictionary_import_data ev df st"])
        (simp_all add: import_table_data_def imports_ok)
  next
    assume t: "t = ''chemical_dictionary''"
    from r show ?thesis
      unfolding t
      by (intro finish_import [where strategy = "chemical_dictionary_import_data ev df st"])
        (simp_all add: import_table_data_def imports_ok)
  next
    assume t: "t = ''list_presence_dictionary''"
    from r show ?thesis
      unfolding t
      by (intro finish_import [where strategy = "list_presence_dictionary_import_data ev df st"])
        (simp_all add: import_table_data_def imports_ok)
  next
    assume t: "t = ''PUC_dictionary''"
    from r show ?thesis
      unfolding t
      by (intro finish_import [where strategy = "PUC_dictionary_import_data ev df st"])
        (simp_all add: import_table_data_def imports_ok)
  next
    assume t: "t = ''functional_use_dictionary''"
    from r show ?thesis
      unfolding t
      by (intro finish_import [where strategy = "functional_use_dictionary_import_data ev df st"])
        (simp_all add: import_table_data_def imports_ok)
  next
    assume t: "t = ''DSSTox''"
    from r show ?thesis
      unfolding t
      by (intro finish_import [where strategy = "DSSTox_import_data ev df st"])
        (simp_all add: import_table_data_def imports_ok)
  next
    assume t: "t = ''QSUR_data''"
    from r show ?thesis
      unfolding t
      by (intro finish_import [where strategy = "QSUR_data_import_data ev df st"])
        (simp_all add: import_table_data_def imports_ok)
  next
    assume t: "t = ''functional_use_data''"
    from r show ?thesis
      unfolding t
      by (intro finish_import [where strategy = "functional_use_data_import_data ev df st"])
        (simp_all add: import_table_data_def imports_ok)
  next
    assume t: "t = ''product_composition_data''"
    from r show ?thesis
      unfolding t
      by (intro finish_import [where strategy = "product_composition_data_import_data ev df st"])
        (simp_all add: import_table_data_def imports_ok)
  next
    assume t: "t = ''list_presence_data''"
    from r show ?thesis
      unfolding t
      by (intro finish_import [where strategy = "list_presence_data_import_data ev df st"])
        (simp_all add: import_table_data_def imports_ok)
  next
    assume t: "t = ''HHE_data''"
    from r show ?thesis
      unfolding t
      by (intro finish_import [where strategy = "HHE_data_import_data ev df st"])
        (simp_all add: import_table_data_def imports_ok)
  qed
qed

lemma import_df_list_known:
  assumes known: "t \<in> set table_names"
    and r: "import_df_list ev t dfs st = (s, st')"
  shows "prefix (committed st) (committed st') \<and> (\<forall>code. s \<noteq> SystemExit code)
     \<and> (\<exists>msgs. printed st' = printed st @ msgs
           \<and> (dfs \<noteq> [] \<and> s = Done \<longrightarrow> Imported t \<in> set msgs))"
  using r
proof (induction dfs arbitrary: st)
  case Nil
  then show ?case by auto
next
  case (Cons df dfs)
  obtain s1 st1 where i: "import_table_data ev t (replace_empty_na_with_null df) st = (s1, st1)"
    by (cases "import_table_data ev t (replace_empty_na_with_null df) st")
  note i1 = import_table_data_known [OF known i]
  show ?case
  proof (cases s1)
    case Done
    with Cons.prems i have rest: "import_df_list ev t dfs st1 = (s, st')" by simp
    from Cons.IH [OF rest] obtain msgs where
      m: "prefix (committed st1) (committed st')" "\<forall>code. s \<noteq> SystemExit code"
        "printed st' = printed st1 @ msgs"
      by blast
    from i1 Done have p1: "printed st1 = printed st @ [Imported t]" by simp
    from i1 m(1) have "prefix (committed st) (committed st')"
      by (meson prefix_order.order_trans)
    moreover from p1 m(3) have "printed st' = printed st @ (Imported t # msgs)" by simp
    ultimately show ?thesis using m(2) by auto
  next
    case (Raised e)
    with Cons.prems i have "s = Raised e" "st' = st1" by simp_all
    with i1 Raised show ?thesis by auto
  next
    case (SystemExit c)
    with i1 show ?thesis by simp
  qed
qed

lemma import_tables_known:
  assumes "\<forall>(t, dfs) \<in> set data. t \<in> set table_names"
  shows "\<exists>st' msgs. import_tables ev data st = (Done, st')
     \<and> prefix (committed st) (committed st') \<and> printed st' = printed st @ msgs
     \<and> (\<forall>(t, dfs) \<in> set data. dfs \<noteq> [] \<longrightarrow>
           Imported t \<in> set msgs \<or> (\<exists>e. ErrorImporting t e \<in> set msgs))"
  using assms
proof (induction data arbitrary: st)
  case Nil
  then show ?case by simp
next
  case (Cons entry data)
  obtain t dfs where entry: "entry = (t, dfs)" by (cases entry)
  with Cons.prems have known: "t \<in> set table_names"
    and rest_known: "\<forall>(t, dfs) \<in> set data. t \<in> set table_names"
    by auto
  obtain s1 st1 where i: "import_df_list ev t dfs st = (s1, st1)"
    by (cases "import_df_list ev t dfs st")
  from import_df_list_known [OF known i] obtain msgs1 where
    i1: "prefix (committed st) (committed st1)" "\<forall>code. s1 \<noteq> SystemExit code"
      "printed st1 = printed st @ msgs1"
      "dfs \<noteq> [] \<and> s1 = Done \<longrightarrow> Imported t \<in> set msgs1"
    by blast
  define st2 where "st2 = (case s1 of Raised e \<Rightarrow> print (ErrorImporting t e) st1 | _ \<Rightarrow> st1)"
  define msgs2 where "msgs2 = (case s1 of Raised e \<Rightarrow> msgs1 @ [ErrorImporting t e] | _ \<Rightarrow> msgs1)"
  from i1(2) have step: "import_tables ev (entry # data) st = import_tables ev data st2"
    using i entry by (cases s1) (simp_all add: st2_def)
  from i1 have c2: "prefix (committed st) (committed st2)"
    by (cases s1) (simp_all add: st2_def print_def)
  from i1 have p2: "printed st2 = printed st @ msgs2"
    by (cases s1) (simp_all add: st2_def msgs2_def print_def)
  from i1 have a2: "dfs \<noteq> [] \<longrightarrow> Imported t \<in> set msgs2 \<or> (\<exists>e. ErrorImporting t e \<in> set msgs2)"
    by (cases s1) (auto simp: msgs2_def)
  from Cons.IH [OF rest_known, of st2] obtain st' msgs where
    r: "import_tables ev data st2 = (Done, st')" "prefix (committed st2) (committed st')"
      "printed st' = printed st2 @ msgs"
      "\<forall>(t, dfs) \<in> set data. dfs \<noteq> [] \<longrightarrow>
           Imported t \<in> set msgs \<or> (\<exists>e. ErrorImporting t e \<in> set msgs)"
    by blast
  from c2 r(2) have c: "prefix (committed st) (committed st')"
    by (meson prefix_order.order_trans)
  from p2 r(3) have p: "printed st' = printed st @ (msgs2 @ msgs)" by simp
  have all: "\<forall>(t, dfs) \<in> set (entry # data). dfs \<noteq> [] \<longrightarrow>
           Imported t \<in> set (msgs2 @ msgs) \<or> (\<exists>e. ErrorImporting t e \<in> set (msgs2 @ msgs))"
  proof (intro ballI)
    fix x assume x: "x \<in> set (entry # data)"
    show "case x of (t, dfs) \<Rightarrow> dfs \<noteq> [] \<longrightarrow>
           Imported t \<in> set (msgs2 @ msgs) \<or> (\<exists>e. ErrorImporting t e \<in> set (msgs2 @ msgs))"
    proof (cases "x = entry")
      case True
      with a2 entry show ?thesis by auto
    next
      case False
      with x have "x \<in> set data" by simp
      with r(4) show ?thesis by fastforce
    qed
  qed
  have "import_tables ev (entry # data) st = (Done, st')
     \<and> prefix (committed st) (committed st') \<and> printed st' = printed st @ (msgs2 @ msgs)
     \<and> (\<forall>(t, dfs) \<in> set (entry # data). dfs \<noteq> [] \<longrightarrow>
           Imported t \<in> set (msgs2 @ msgs) \<or> (\<exists>e. ErrorImporting t e \<in> set (msgs2 @ msgs)))"
    using step r(1) c p all by simp
  then show ?case by (intro exI)
qed

lemma import_tables_append:
  "import_tables ev (xs @ ys) st =
     (case import_tables ev xs st of
        (Done, st1) \<Rightarrow> import_tables ev ys st1
      | other \<Rightarrow> other)"
  by (induction xs arbitrary: st) (auto split: prod.splits status.splits)

text \<open>
  C8. A run over known tables in which the import of one table raises an exception:
  the run still ends normally; the loop goes on with the remaining tables from the state
  the failure left, after printing the table name and the exception; each remaining
  table with a record set is attempted (its success or its own error is printed after
  that line); and the rows committed before the failing table are still in the database
  at the end.
\<close>

theorem import_failure_isolated:
  assumes known: "\<forall>(t, dfs) \<in> set (before @ (table_name, df_list) # rest). t \<in> set table_names"
    and start: "import_tables ev before st = (s0, st_before)"
    and fail: "import_df_list ev table_name df_list st_before = (Raised e, st_fail)"
  shows "\<exists>st' later.
       import_data_to_DB ev (before @ (table_name, df_list) # rest) st = (Done, st')
     \<and> import_tables ev (before @ (table_name, df_list) # rest) st
         = import_tables ev rest (print (ErrorImporting table_name e) st_fail)
     \<and> printed st' = printed st_fail @ ErrorImporting table_name e # later
     \<and> (\<forall>(t, dfs) \<in> set rest. dfs \<noteq> [] \<longrightarrow>
           Imported t \<in> set later \<or> (\<exists>e'. ErrorImporting t e' \<in> set later))
     \<and> prefix (committed st_before) (committed st')"
proof -
  from known have kb: "\<forall>(t, dfs) \<in> set before. t \<in> set table_names"
    and kt: "table_name \<in> set table_names"
    and kr: "\<forall>(t, dfs) \<in> set rest. t \<in> set table_names"
    by auto
  from import_tables_known [OF kb, of ev st] start have s0: "s0 = Done" by auto
  let ?st1 = "print (ErrorImporting table_name e) st_fail"
  have eq: "import_tables ev (before @ (table_name, df_list) # rest) st
      = import_tables ev rest ?st1"
    using start s0 fail by (simp add: import_tables_append)
  from import_tables_known [OF kr, of ev ?st1] obtain st2 later where
    r: "import_tables ev rest ?st1 = (Done, st2)" "prefix (committed ?st1) (committed st2)"
      "printed st2 = printed ?st1 @ later"
      "\<forall>(t, dfs) \<in> set rest. dfs \<noteq> [] \<longrightarrow>
           Imported t \<in> set later \<or> (\<exists>e'. ErrorImporting t e' \<in> set later)"
    by blast
  from import_df_list_known [OF kt fail]
  have "prefix (committed st_before) (committed st_fail)" by blast
  with r(2) have "prefix (committed st_before) (committed st2)"
    by (simp add: print_def)
  then have c: "prefix (committed st_before) (committed (commit st2))"
    by (simp add: commit_def)
  have d: "import_data_to_DB ev (before @ (table_name, df_list) # rest) st = (Done, commit st2)"
    using eq r(1) by (simp add: import_data_to_DB_def)
  have p: "printed (commit st2) = printed st_fail @ ErrorImporting table_name e # later"
    using r(3) by (simp add: commit_def print_def)
  from d eq p r(4) c show ?thesis by blast
qed

theorem import_failure_isolated_witness:
  "import_data_to_DB \<lparr>year_padded = True, accepts = (\<lambda>visible table row. True)\<rparr>
     ([(''HHE_data'', [\<lparr>columns = [''document_id'', ''chemical_id''],
                         rows = [[Num (Finite 1), Num (Finite 2)]]\<rparr>])]
      @ (''DSSTox'', [\<lparr>columns = [''DTXSID'', ''IDENTIFIER''],
                        rows = [[Str ''DTXSID7020637'', PyNone]]\<rparr>])
      # [(''QSUR_data'', [\<lparr>columns = [''DTXSID'', ''preferred_name'', ''preferred_casrn'',
                            ''harmonized_function'', ''probability''],
                          rows = [[Str ''DTXSID7020637'', Str ''Formaldehyde'', Str ''50-00-0'',
                                   Str ''biocide'', Num (Finite 0.9)]]\<rparr>])])
     \<lparr>committed = [], pending = [], printed = []\<rparr>
   = (Done,
      \<lparr>committed = [(''HHE_data'', [Num (Finite 1), Num (Finite 2)]),
                    (''QSUR_data'', [Str ''DTXSID7020637'', Str ''Formaldehyde'', Str ''50-00-0'',
                                   Str ''biocide'', Num (Finite 0.9)])],
       pending = [],
       printed = [Imported ''HHE_data'', ErrorImporting ''DSSTox'' AttributeError,
                  Imported ''QSUR_data'']\<rparr>)
   \<and> prefix [(''HHE_data'', [Num (Finite 1), Num (Finite 2)])]
        [(''HHE_data'', [Num (Finite 1), Num (Finite 2)]),
         (''QSUR_data'', [Str ''DTXSID7020637'', Str ''Formaldehyde'', Str ''50-00-0'',
                        Str ''biocide'', Num (Finite 0.9)])]"
proof -
  let ?ev = "\<lparr>year_padded = True, accepts = (\<lambda>visible table row. True)\<rparr>"
  let ?before = "[(''HHE_data'', [\<lparr>columns = [''document_id'', ''chemical_id''],
                         rows = [[Num (Finite 1), Num (Finite 2)]]\<rparr>])]"
  let ?dfs = "[\<lparr>columns = [''DTXSID'', ''IDENTIFIER''],
                        rows = [[Str ''DTXSID7020637'', PyNone]]\<rparr>]"
  let ?rest = "[(''QSUR_data'', [\<lparr>columns = [''DTXSID'', ''preferred_name'', ''preferred_casrn'',
                            ''harmonized_function'', ''probability''],
                          rows = [[Str ''DTXSID7020637'', Str ''Formaldehyde'', Str ''50-00-0'',
                                   Str ''biocide'', Num (Finite 0.9)]]\<rparr>])]"
  let ?st = "\<lparr>committed = [], pending = [], printed = []\<rparr>"
  let ?mid = "\<lparr>committed = [(''HHE_data'', [Num (Finite 1), Num (Finite 2)])],
               pending = [], printed = [Imported ''HHE_data'']\<rparr>"
  let ?end = "\<lparr>committed = [(''HHE_data'', [Num (Finite 1), Num (Finite 2)]),
                    (''QSUR_data'', [Str ''DTXSID7020637'', Str ''Formaldehyde'', Str ''50-00-0'',
                                   Str ''biocide'', Num (Finite 0.9)])],
       pending = [],
       printed = [Imported ''HHE_data'', ErrorImporting ''DSSTox'' AttributeError,
                  Imported ''QSUR_data'']\<rparr>"
  have known: "\<forall>(t, dfs) \<in> set (?before @ (''DSSTox'', ?dfs) # ?rest). t \<in> set table_names"
    by (simp add: table_names_def)
  have start: "import_tables ?ev ?before ?st = (Done, ?mid)"
    by code_simp
  have fail: "import_df_list ?ev ''DSSTox'' ?dfs ?mid = (Raised AttributeError, ?mid)"
    by code_simp
  have run: "import_data_to_DB ?ev (?before @ (''DSSTox'', ?dfs) # ?rest) ?st = (Done, ?end)"
    by code_simp
  from import_failure_isolated [OF known start fail] obtain st' where
    "import_data_to_DB ?ev (?before @ (''DSSTox'', ?dfs) # ?rest) ?st = (Done, st')"
    "prefix (committed ?mid) (committed st')"
    by blast
  with run have "prefix (committed ?mid) (committed ?end)" by simp
  with run show ?thesis by simp
qed

end
